theory Spec2Isabelle
  imports Complex_Main
begin

section \<open>Values, series and Python indexing\<close>

text \<open>
  A sample of a pandas column is a float. The model idealises finite floats as reals and
  writes the missing value NaN as \<open>None\<close>. A pandas Series is a list of samples, each
  with its index label; the columns read from a file carry the labels 0, 1, 2, ... and
  every series derived from them keeps the labels of the rows it retains.
\<close>

type_synonym val = "real option"
type_synonym series = "(nat \<times> val) list"

datatype error =
    IndexError | UnboundLocalError | AttributeError | KeyError | ValueError | TypeError
  | FileNotFoundError | ExternalError
  | MalformedFormatError | MissingFieldError | UnitParseError
  | ValueNotFoundError | InvalidParameterError

text \<open>
  The first seven errors are the exceptions the Python source can raise by itself,
  \<open>ExternalError\<close> is any exception raised inside pandas or scipy; the last five are
  the error names of the specification, which no statement of the source raises.
\<close>

datatype 's outcome = Returns 's | Raises error 's

fun state_of :: "'s outcome \<Rightarrow> 's" where
  "state_of (Returns s) = s"
| "state_of (Raises e s) = s"

fun val_gt :: "val \<Rightarrow> real \<Rightarrow> bool" where
  "val_gt (Some x) m = (x > m)"
| "val_gt None m = False"

fun val_ge :: "val \<Rightarrow> val \<Rightarrow> bool" where
  "val_ge (Some x) (Some y) = (x \<ge> y)"
| "val_ge _ _ = False"

fun val_le :: "val \<Rightarrow> val \<Rightarrow> bool" where
  "val_le (Some x) (Some y) = (x \<le> y)"
| "val_le _ _ = False"

fun val_sub :: "val \<Rightarrow> val \<Rightarrow> val" where
  "val_sub (Some x) (Some y) = Some (x - y)"
| "val_sub _ _ = None"

text \<open>
  Dividing a float column by a zero scalar raises nothing in numpy: the quotients are
  infinite or NaN. The model writes all of these non-finite results as \<open>None\<close>.
\<close>

fun val_div :: "val \<Rightarrow> real \<Rightarrow> val" where
  "val_div (Some x) d = (if d = 0 then None else Some (x / d))"
| "val_div None d = None"

fun nan0 :: "val \<Rightarrow> real" where
  "nan0 (Some x) = x"
| "nan0 None = 0"

text \<open>\<open>Series.sum()\<close> skips NaN.\<close>

definition nansum :: "val list \<Rightarrow> real" where
  "nansum vs = sum_list (map nan0 vs)"

definition mk_series :: "val list \<Rightarrow> series" where
  "mk_series vs = zip [0..<length vs] vs"

definition labels :: "series \<Rightarrow> nat list" where
  "labels ser = map fst ser"

definition values_of :: "series \<Rightarrow> val list" where
  "values_of ser = map snd ser"

text \<open>Python's \<open>xs[i]\<close>: negative positions count from the end, others raise.\<close>

definition iloc_at :: "int \<Rightarrow> 'a list \<Rightarrow> error + 'a" where
  "iloc_at i xs =
     (if 0 \<le> i \<and> i < int (length xs) then Inr (xs ! nat i)
      else if i < 0 \<and> - int (length xs) \<le> i then Inr (xs ! nat (int (length xs) + i))
      else Inl IndexError)"

text \<open>Python's slice bounds: negative bounds count from the end, all are clamped.\<close>

definition slice_bound :: "nat \<Rightarrow> int \<Rightarrow> nat" where
  "slice_bound n i = (if i < 0 then nat (max 0 (int n + i)) else min n (nat i))"

definition iloc_slice :: "int \<Rightarrow> int \<Rightarrow> 'a list \<Rightarrow> 'a list" where
  "iloc_slice a b xs =
     drop (slice_bound (length xs) a) (take (slice_bound (length xs) b) xs)"

definition iloc_upto :: "int \<Rightarrow> 'a list \<Rightarrow> 'a list" where
  "iloc_upto b xs = take (slice_bound (length xs) b) xs"

text \<open>\<open>ser[mask]\<close> with a boolean mask computed row by row from another series.\<close>

definition select_rows :: "bool list \<Rightarrow> series \<Rightarrow> series" where
  "select_rows keep ser = map snd (filter fst (zip keep ser))"

text \<open>\<open>ser[ser == x].index[0]\<close>: the label of the first sample equal to \<open>x\<close>.\<close>

definition index0_eq :: "series \<Rightarrow> real \<Rightarrow> error + nat" where
  "index0_eq ser x =
     (case filter (\<lambda>p. snd p = Some x) ser of
        [] \<Rightarrow> Inl IndexError
      | p # _ \<Rightarrow> Inr (fst p))"

definition lookup_label :: "series \<Rightarrow> nat \<Rightarrow> val" where
  "lookup_label ser i = (case map_of ser i of None \<Rightarrow> None | Some v \<Rightarrow> v)"

text \<open>
  \<open>a - b\<close> on two series aligns them on their labels: with equal indexes the samples are
  subtracted pairwise, otherwise the result ranges over the sorted union of the labels
  and is NaN wherever one operand has no sample. (Labels are unique and ascending in every
  series the program builds.)
\<close>

definition sub_series :: "series \<Rightarrow> series \<Rightarrow> series" where
  "sub_series a b =
     (if labels a = labels b
      then map (\<lambda>(p, q). (fst p, val_sub (snd p) (snd q))) (zip a b)
      else map (\<lambda>i. (i, val_sub (lookup_label a i) (lookup_label b i)))
             (sort (remdups (labels a @ labels b))))"

definition div_series :: "series \<Rightarrow> real \<Rightarrow> series" where
  "div_series ser d = map (\<lambda>p. (fst p, val_div (snd p) d)) ser"

section \<open>Strings\<close>

text \<open>\<open>s.split(c)\<close>\<close>

fun split_on :: "char \<Rightarrow> string \<Rightarrow> string list" where
  "split_on c [] = [[]]"
| "split_on c (x # xs) =
     (if x = c then [] # split_on c xs
      else (case split_on c xs of
              [] \<Rightarrow> [[x]]
            | w # ws \<Rightarrow> (x # w) # ws))"

text \<open>\<open>s.replace(old, new)\<close> for a non-empty \<open>old\<close>; the counter skips the matched text.\<close>

fun replace_from :: "string \<Rightarrow> string \<Rightarrow> nat \<Rightarrow> string \<Rightarrow> string" where
  "replace_from old new k [] = []"
| "replace_from old new (Suc k) (c # cs) = replace_from old new k cs"
| "replace_from old new 0 (c # cs) =
     (if take (length old) (c # cs) = old
      then new @ replace_from old new (length old - 1) cs
      else c # replace_from old new 0 cs)"

definition str_replace :: "string \<Rightarrow> string \<Rightarrow> string \<Rightarrow> string" where
  "str_replace old new s = replace_from old new 0 s"

text \<open>\<open>os.path.basename(p)[:-4]\<close>\<close>

definition basename :: "string \<Rightarrow> string" where
  "basename p = last (split_on CHR ''/'' p)"

definition name_of_path :: "string \<Rightarrow> string" where
  "name_of_path p = iloc_upto (- 4) (basename p)"

section \<open>The files and the external readers\<close>

text \<open>
  The csv reader, the pandas table reader, Python's \<open>float\<close> and the Savitzky-Golay
  filter are collaborators, taken as parameters. \<open>csv_reader\<close> gives the rows of a file
  as \<open>csv.reader\<close> yields them (the fields of each line, split at commas) and \<open>None\<close>
  for a path that cannot be opened. The three table readers stand for the \<open>pd.read_csv\<close>
  calls of the constructors: the rows of the data section with one sample per column name,
  and the info and metadata sections as (field, value) pairs, the metadata fields already
  stripped. \<open>read_grid\<close> stands for the \<open>pd.read_csv\<close> calls of the melting
  spectra, which read a matrix with its column labels and its wavelength index. Each
  returns \<open>None\<close> when pandas raises.
\<close>

record grid =
  g_columns :: "string list"
  g_index :: "val list"
  g_cells :: "val list list"

record env =
  csv_reader :: "string \<Rightarrow> string list list option"
  read_info :: "string \<Rightarrow> int \<Rightarrow> (string \<times> string) list option"
  read_data :: "string \<Rightarrow> string list \<Rightarrow> int \<Rightarrow> int \<Rightarrow> val list list option"
  read_metadata :: "string \<Rightarrow> int \<Rightarrow> (string \<times> string) list option"
  py_float :: "string \<Rightarrow> real option"
  savgol_filter :: "val list \<Rightarrow> int \<Rightarrow> int \<Rightarrow> val list option"
  read_grid :: "string \<Rightarrow> int \<Rightarrow> int option \<Rightarrow> grid option"

definition cell :: "val list \<Rightarrow> nat \<Rightarrow> val" where
  "cell r j = (if j < length r then r ! j else None)"

fun position_of :: "string \<Rightarrow> string list \<Rightarrow> nat" where
  "position_of c [] = 0"
| "position_of c (x # xs) = (if x = c then 0 else Suc (position_of c xs))"

text \<open>\<open>table[c]\<close>: the column named \<open>c\<close> of a table read with the column names \<open>cs\<close>.\<close>

definition column :: "string list \<Rightarrow> val list list \<Rightarrow> string \<Rightarrow> val list" where
  "column cs rows c = map (\<lambda>r. cell r (position_of c cs)) rows"

text \<open>\<open>float(metadata['Data pitch'][0].replace(' nm', ''))\<close>\<close>

definition data_pitch :: "env \<Rightarrow> (string \<times> string) list \<Rightarrow> error + real" where
  "data_pitch E md =
     (case map_of md ''Data pitch'' of
        None \<Rightarrow> Inl KeyError
      | Some v \<Rightarrow>
          (case py_float E (str_replace '' nm'' [] v) of
             None \<Rightarrow> Inl ValueError
           | Some d \<Rightarrow> Inr d))"

section \<open>Locating the data section\<close>

text \<open>\<open>line[0].split(';')[1]\<close>\<close>

definition title_of :: "string list \<Rightarrow> error + string" where
  "title_of line =
     (case line of
        [] \<Rightarrow> Inl IndexError
      | f # _ \<Rightarrow>
          (case split_on CHR '';'' f of
             _ # t # _ \<Rightarrow> Inr t
           | _ \<Rightarrow> Inl IndexError))"

text \<open>
  The scanning loop of \<open>cd_spectra.__init__\<close> and \<open>abs_spectra.__init__\<close>. The state is
  the title and the variables \<open>start\<close> and \<open>end\<close>, each \<open>None\<close> while it is unbound.
\<close>

type_synonym scan_state = "string option \<times> int option \<times> int option"

fun scan_lines :: "nat \<Rightarrow> string list list \<Rightarrow> scan_state \<Rightarrow> error + scan_state" where
  "scan_lines position [] st = Inr st"
| "scan_lines position (line # rest) (t, start, end) =
     (if position = 0 then
        (case title_of line of
           Inl e \<Rightarrow> Inl e
         | Inr t' \<Rightarrow> scan_lines (Suc position) rest (Some t', start, end))
      else if ''XYDATA'' \<in> set line then
        scan_lines (Suc position) rest (t, Some (int position + 1), end)
      else if ''##### Extended Information'' \<in> set line then
        Inr (t, start, Some (int position - 1))
      else scan_lines (Suc position) rest (t, start, end))"

text \<open>The loop of \<open>cd_spectra.baseline\<close>, which reads no title.\<close>

fun scan_baseline ::
  "nat \<Rightarrow> string list list \<Rightarrow> int option \<times> int option \<Rightarrow> int option \<times> int option" where
  "scan_baseline position [] st = st"
| "scan_baseline position (line # rest) (start, end) =
     (if ''XYDATA'' \<in> set line then
        scan_baseline (Suc position) rest (Some (int position + 1), end)
      else if ''##### Extended Information'' \<in> set line then
        (start, Some (int position - 1))
      else scan_baseline (Suc position) rest (start, end))"

text \<open>
  The three \<open>pd.read_csv\<close> calls that follow the loop. A name that the loop left unbound
  raises \<open>UnboundLocalError\<close> where it is first read: \<open>start\<close> in the call for the info
  section, \<open>end\<close> in the call for the data section.
\<close>

record sections =
  sec_title :: "string option"
  sec_info :: "(string \<times> string) list"
  sec_data :: "val list list"
  sec_metadata :: "(string \<times> string) list"

definition read_sections :: "env \<Rightarrow> string \<Rightarrow> string list \<Rightarrow> error + sections" where
  "read_sections E p cs =
     (case csv_reader E p of
        None \<Rightarrow> Inl FileNotFoundError
      | Some rows \<Rightarrow>
     (case scan_lines 0 rows (None, None, None) of
        Inl e \<Rightarrow> Inl e
      | Inr (t, start, end) \<Rightarrow>
     (case start of
        None \<Rightarrow> Inl UnboundLocalError
      | Some st \<Rightarrow>
     (case read_info E p st of
        None \<Rightarrow> Inl ExternalError
      | Some itab \<Rightarrow>
     (case end of
        None \<Rightarrow> Inl UnboundLocalError
      | Some en \<Rightarrow>
     (case read_data E p cs (st - 1) (en - st) of
        None \<Rightarrow> Inl ExternalError
      | Some d \<Rightarrow>
     (case read_metadata E p (en + 1) of
        None \<Rightarrow> Inl ExternalError
      | Some md \<Rightarrow>
          Inr \<lparr>sec_title = t, sec_info = itab, sec_data = d, sec_metadata = md\<rparr>)))))))"

section \<open>The object store\<close>

text \<open>
  Attributes that hold a series hold a reference into a store of series objects, so that
  two attributes bound to the same object are told apart from two equal copies. No
  statement of the source writes into an existing series: every operation builds a new one
  and rebinds an attribute, so the only store operation is allocation.
\<close>

type_synonym ref = nat
type_synonym store = "series list"

definition alloc :: "series \<Rightarrow> store \<Rightarrow> ref \<times> store" where
  "alloc v h = (length h, h @ [v])"

definition deref :: "store \<Rightarrow> ref \<Rightarrow> series" where
  "deref h r = h ! r"

section \<open>CD spectra\<close>

record cd_spectra =
  store :: store
  stdout :: "string list"
  path :: string
  name :: string
  cols :: "string list"
  title :: "string option"
  info :: "(string \<times> string) list"
  data :: "val list list"
  metadata :: "(string \<times> string) list"
  wavelength_raw :: ref
  wavelength :: ref
  ellipticity_raw :: ref
  ellipticity :: ref
  ht :: ref
  absorbance :: "ref option"
  wv_min :: val
  wv_max :: val
  idx_cutoff :: int
  wv_cutoff :: val
  filtered :: bool
  corrected :: bool
  wv_delta :: real
  blank :: "val list list option"
  smoothed :: "val list option"
  integral :: "real option"

text \<open>The series an attribute is bound to.\<close>

definition the_ellipticity :: "cd_spectra \<Rightarrow> series" where
  "the_ellipticity s = deref (store s) (ellipticity s)"

definition the_wavelength :: "cd_spectra \<Rightarrow> series" where
  "the_wavelength s = deref (store s) (wavelength s)"

definition the_ellipticity_raw :: "cd_spectra \<Rightarrow> series" where
  "the_ellipticity_raw s = deref (store s) (ellipticity_raw s)"

definition the_wavelength_raw :: "cd_spectra \<Rightarrow> series" where
  "the_wavelength_raw s = deref (store s) (wavelength_raw s)"

definition the_ht :: "cd_spectra \<Rightarrow> series" where
  "the_ht s = deref (store s) (ht s)"

text \<open>
  The loop over the HT column: the position of the first sample strictly above \<open>ht_max\<close>.
\<close>

fun first_exceeding :: "real \<Rightarrow> nat \<Rightarrow> val list \<Rightarrow> nat option" where
  "first_exceeding ht_max position [] = None"
| "first_exceeding ht_max position (h # hs) =
     (if val_gt h ht_max then Some position
      else first_exceeding ht_max (Suc position) hs)"

definition position_cutoff :: "real \<Rightarrow> val list \<Rightarrow> val list \<Rightarrow> int" where
  "position_cutoff ht_max wl hts =
     (case first_exceeding ht_max 0 hts of
        None \<Rightarrow> int (length wl)
      | Some p \<Rightarrow> int p)"

definition cd_cols :: "bool \<Rightarrow> string list" where
  "cd_cols ab =
     (if ab then [''Wavelength [nm]'', ''CD [mdeg]'', ''HT [V]'', ''Abs [UA]'']
      else [''Wavelength [nm]'', ''CD [mdeg]'', ''HT [V]''])"

text \<open>
  \<open>cd_spectra.__init__\<close>. The columns of the data table are the first objects of the
  store: 0 the wavelengths, 1 the ellipticities, 2 the HT values, 3 the absorbances when
  the file has them. The raw and the current attribute are bound to the same object.
\<close>

definition cd_spectra_init :: "env \<Rightarrow> string \<Rightarrow> real \<Rightarrow> bool \<Rightarrow> error + cd_spectra" where
  "cd_spectra_init E p ht_max ab =
     (case read_sections E p (cd_cols ab) of
        Inl e \<Rightarrow> Inl e
      | Inr sec \<Rightarrow>
     (let cs = cd_cols ab;
          wl = column cs (sec_data sec) ''Wavelength [nm]'';
          cd = column cs (sec_data sec) ''CD [mdeg]'';
          hts = column cs (sec_data sec) ''HT [V]'';
          h = [mk_series wl, mk_series cd, mk_series hts]
            @ (if ab then [mk_series (column cs (sec_data sec) ''Abs [UA]'')] else [])
      in
     (case iloc_at (- 1) wl of
        Inl e \<Rightarrow> Inl e
      | Inr wmin \<Rightarrow>
     (case iloc_at 0 wl of
        Inl e \<Rightarrow> Inl e
      | Inr wmax \<Rightarrow>
     (case iloc_at (position_cutoff ht_max wl hts - 1) wl of
        Inl e \<Rightarrow> Inl e
      | Inr wcut \<Rightarrow>
     (case data_pitch E (sec_metadata sec) of
        Inl e \<Rightarrow> Inl e
      | Inr d \<Rightarrow>
          Inr \<lparr>store = h, stdout = [], path = p, name = name_of_path p, cols = cs,
               title = sec_title sec, info = sec_info sec, data = sec_data sec,
               metadata = sec_metadata sec,
               wavelength_raw = 0, wavelength = 0,
               ellipticity_raw = 1, ellipticity = 1,
               ht = 2, absorbance = (if ab then Some 3 else None),
               wv_min = wmin, wv_max = wmax,
               idx_cutoff = position_cutoff ht_max wl hts - 1, wv_cutoff = wcut,
               filtered = False, corrected = False, wv_delta = d,
               blank = None, smoothed = None, integral = None\<rparr>))))))"

text \<open>\<open>cd_spectra.ht_filter\<close>\<close>

definition ht_filter :: "cd_spectra \<Rightarrow> cd_spectra outcome" where
  "ht_filter s =
     (if \<not> filtered s then
        (let (re, h1) = alloc (iloc_upto (idx_cutoff s + 1) (deref (store s) (ellipticity s)))
                          (store s);
             (rw, h2) = alloc (iloc_upto (idx_cutoff s + 1) (deref h1 (wavelength s))) h1
         in Returns (s\<lparr>store := h2, ellipticity := re, wavelength := rw, filtered := True\<rparr>))
      else
        Returns (s\<lparr>stdout := stdout s
                   @ [''Your data has already been filtered using HT threshold'']\<rparr>))"

text \<open>
  \<open>cd_spectra.baseline\<close>. The blank table is read with the column names of the record.
  The rows of the blank kept are those whose wavelength lies between \<open>wv_min\<close> (or
  \<open>wv_cutoff\<close>, once the record is filtered) and \<open>wv_max\<close>.
\<close>

definition blank_mask :: "val \<Rightarrow> val \<Rightarrow> val list \<Rightarrow> bool list" where
  "blank_mask lo hi ws = map (\<lambda>w. val_ge w lo \<and> val_le w hi) ws"

definition baseline :: "env \<Rightarrow> string \<Rightarrow> cd_spectra \<Rightarrow> cd_spectra outcome" where
  "baseline E baseline_path s =
     (if \<not> corrected s then
        (case csv_reader E baseline_path of
           None \<Rightarrow> Raises FileNotFoundError s
         | Some rows \<Rightarrow>
        (case scan_baseline 0 rows (None, None) of
           (None, _) \<Rightarrow> Raises UnboundLocalError s
         | (Some start, None) \<Rightarrow> Raises UnboundLocalError s
         | (Some start, Some end) \<Rightarrow>
        (case read_data E baseline_path (cols s) (start - 1) (end - start) of
           None \<Rightarrow> Raises ExternalError s
         | Some b \<Rightarrow>
            (let lo = (if filtered s then wv_cutoff s else wv_min s);
                 bw = column (cols s) b ''Wavelength [nm]'';
                 bc = column (cols s) b ''CD [mdeg]'';
                 keep = blank_mask lo (wv_max s) bw;
                 (rw, h1) = alloc (select_rows keep (mk_series bw)) (store s);
                 (re, h2) = alloc (sub_series (deref h1 (ellipticity s))
                                     (select_rows keep (mk_series bc))) h1
             in Returns (s\<lparr>store := h2, blank := Some b, wavelength := rw,
                           ellipticity := re, corrected := True\<rparr>)))))
      else
        Returns (s\<lparr>stdout := stdout s @ [''Baseline is already corrected'']\<rparr>))"

text \<open>\<open>cd_spectra.smooth\<close>: the filter is external and returns a new array.\<close>

definition smooth :: "env \<Rightarrow> int \<Rightarrow> int \<Rightarrow> cd_spectra \<Rightarrow> cd_spectra outcome" where
  "smooth E wdw polyorder s =
     (case savgol_filter E (values_of (deref (store s) (ellipticity s))) wdw polyorder of
        None \<Rightarrow> Raises ExternalError s
      | Some r \<Rightarrow> Returns (s\<lparr>smoothed := Some r\<rparr>))"

text \<open>\<open>cd_spectra.mre\<close>\<close>

definition mre :: "real \<Rightarrow> real \<Rightarrow> real \<Rightarrow> cd_spectra \<Rightarrow> cd_spectra outcome" where
  "mre concentration aa_number pathlength s =
     (let (r, h) = alloc (div_series (deref (store s) (ellipticity s))
                            (10 * concentration * aa_number * pathlength)) (store s)
      in Returns (s\<lparr>store := h, ellipticity := r\<rparr>))"

text \<open>
  The Riemann sum shared by \<open>cd_spectra.integrate\<close> and \<open>abs_spectra.integrate\<close>:
  the labels of the two bounds in the wavelength series, used as positions in the signal.
  The bound \<open>wv_limit_upper\<close> is looked up first.
\<close>

definition riemann :: "real \<Rightarrow> series \<Rightarrow> series \<Rightarrow> real \<Rightarrow> real \<Rightarrow> error + real" where
  "riemann delta wl sig wv_limit_lower wv_limit_upper =
     (case index0_eq wl wv_limit_upper of
        Inl e \<Rightarrow> Inl e
      | Inr iu \<Rightarrow>
     (case index0_eq wl wv_limit_lower of
        Inl e \<Rightarrow> Inl e
      | Inr il \<Rightarrow>
          Inr (delta * nansum (values_of (iloc_slice (int iu) (int il + 1) sig)))))"

definition integrate :: "real \<Rightarrow> real \<Rightarrow> cd_spectra \<Rightarrow> cd_spectra outcome" where
  "integrate wv_limit_lower wv_limit_upper s =
     (case riemann (wv_delta s) (deref (store s) (wavelength s))
             (deref (store s) (ellipticity s)) wv_limit_lower wv_limit_upper of
        Inl e \<Rightarrow> Raises e s
      | Inr v \<Rightarrow> Returns (s\<lparr>integral := Some v\<rparr>))"

section \<open>Absorbance spectra\<close>

text \<open>
  The attribute \<open>nm\<close>, which \<open>baseline\<close> and \<open>concentration_calc\<close> read, is bound by
  no statement of the class: \<open>a_nm\<close> is \<open>None\<close> while it is unbound.
\<close>

record abs_spectra =
  a_store :: store
  a_stdout :: "string list"
  a_path :: string
  a_name :: string
  a_cols :: "string list"
  a_title :: "string option"
  a_info :: "(string \<times> string) list"
  a_data :: "val list list"
  a_metadata :: "(string \<times> string) list"
  a_wavelength :: ref
  a_abs_raw :: ref
  a_abs :: ref
  a_wv_min :: val
  a_wv_max :: val
  a_corrected :: bool
  a_wv_delta :: real
  a_nm :: "ref option"
  a_blank :: "val list list option"
  a_smoothed :: "val list option"
  a_concentration :: "series option"
  a_integral :: "real option"

definition the_abs :: "abs_spectra \<Rightarrow> series" where
  "the_abs a = deref (a_store a) (a_abs a)"

definition the_abs_raw :: "abs_spectra \<Rightarrow> series" where
  "the_abs_raw a = deref (a_store a) (a_abs_raw a)"

definition the_abs_wavelength :: "abs_spectra \<Rightarrow> series" where
  "the_abs_wavelength a = deref (a_store a) (a_wavelength a)"

definition abs_cols :: "string list" where
  "abs_cols = [''Wavelength [nm]'', ''Abs [UA]'']"

text \<open>\<open>abs_spectra.__init__\<close>: object 0 is the wavelength column, object 1 the absorbances.\<close>

definition abs_spectra_init :: "env \<Rightarrow> string \<Rightarrow> error + abs_spectra" where
  "abs_spectra_init E p =
     (case read_sections E p abs_cols of
        Inl e \<Rightarrow> Inl e
      | Inr sec \<Rightarrow>
     (let wl = column abs_cols (sec_data sec) ''Wavelength [nm]'';
          ab = column abs_cols (sec_data sec) ''Abs [UA]''
      in
     (case iloc_at (- 1) wl of
        Inl e \<Rightarrow> Inl e
      | Inr wmin \<Rightarrow>
     (case iloc_at 0 wl of
        Inl e \<Rightarrow> Inl e
      | Inr wmax \<Rightarrow>
     (case data_pitch E (sec_metadata sec) of
        Inl e \<Rightarrow> Inl e
      | Inr d \<Rightarrow>
          Inr \<lparr>a_store = [mk_series wl, mk_series ab], a_stdout = [], a_path = p,
               a_name = name_of_path p, a_cols = abs_cols, a_title = sec_title sec,
               a_info = sec_info sec, a_data = sec_data sec,
               a_metadata = sec_metadata sec,
               a_wavelength = 0, a_abs_raw = 1, a_abs = 1,
               a_wv_min = wmin, a_wv_max = wmax, a_corrected = False, a_wv_delta = d,
               a_nm = None, a_blank = None, a_smoothed = None, a_concentration = None,
               a_integral = None\<rparr>)))))"

text \<open>
  \<open>ser[keep]\<close> where the boolean mask comes from another series: pandas raises when the
  two indexes differ.
\<close>

definition mask_eq :: "series \<Rightarrow> real option \<Rightarrow> bool list" where
  "mask_eq ser x = map (\<lambda>p. x \<noteq> None \<and> snd p = x) ser"

definition select_by :: "series \<Rightarrow> series \<Rightarrow> real option \<Rightarrow> error + series" where
  "select_by ser wl x =
     (if labels ser = labels wl then Inr (select_rows (mask_eq wl x) ser)
      else Inl ExternalError)"

text \<open>\<open>ser[idx]\<close> with a list of labels: the samples at these labels.\<close>

definition at_labels :: "series \<Rightarrow> nat list \<Rightarrow> error + series" where
  "at_labels ser idx =
     (if set idx \<subseteq> set (labels ser) then Inr (map (\<lambda>i. (i, lookup_label ser i)) idx)
      else Inl KeyError)"

text \<open>
  \<open>self.abs - self.abs[self.nm[self.wavelength == wv].index]\<close>, the expression of
  \<open>baseline\<close> and \<open>concentration_calc\<close>; reading \<open>self.nm\<close> comes first. The
  argument is \<open>None\<close> for Python's \<open>None\<close>, which equals no sample.
\<close>

definition abs_minus_at :: "abs_spectra \<Rightarrow> real option \<Rightarrow> error + series" where
  "abs_minus_at a wv =
     (case a_nm a of
        None \<Rightarrow> Inl AttributeError
      | Some r \<Rightarrow>
     (case select_by (deref (a_store a) r) (deref (a_store a) (a_wavelength a)) wv of
        Inl e \<Rightarrow> Inl e
      | Inr sel \<Rightarrow>
     (case at_labels (deref (a_store a) (a_abs a)) (labels sel) of
        Inl e \<Rightarrow> Inl e
      | Inr sub \<Rightarrow> Inr (sub_series (deref (a_store a) (a_abs a)) sub))))"

text \<open>\<open>abs_spectra.concentration_calc\<close>\<close>

definition concentration_calc ::
  "real \<Rightarrow> real \<Rightarrow> real \<Rightarrow> abs_spectra \<Rightarrow> abs_spectra outcome" where
  "concentration_calc wv molar_extinction_coeff pathlength a =
     (case abs_minus_at a (Some wv) of
        Inl e \<Rightarrow> Raises e a
      | Inr d \<Rightarrow>
          Returns (a\<lparr>a_concentration :=
                       Some (div_series d (molar_extinction_coeff * pathlength))\<rparr>))"

text \<open>
  \<open>abs_spectra.baseline\<close>. The first branch is taken when \<open>baseline_path\<close> is \<open>None\<close>
  or empty, and then \<open>open\<close> raises on it; the second when \<open>nm\<close> is \<open>None\<close> or zero.
\<close>

definition abs_baseline_value :: "real option \<Rightarrow> abs_spectra \<Rightarrow> abs_spectra outcome" where
  "abs_baseline_value nm a =
     (if nm = None \<or> nm = Some 0 then
        (case abs_minus_at a nm of
           Inl e \<Rightarrow> Raises e a
         | Inr d \<Rightarrow>
             (let (r, h) = alloc d (a_store a)
              in Returns (a\<lparr>a_store := h, a_abs := r\<rparr>)))
      else
        Returns (a\<lparr>a_stdout := a_stdout a
                   @ [''You have already substracted a baseline value!'']\<rparr>))"

definition abs_baseline ::
  "string option \<Rightarrow> real option \<Rightarrow> abs_spectra \<Rightarrow> abs_spectra outcome" where
  "abs_baseline baseline_path nm a =
     (if baseline_path = None \<or> baseline_path = Some [] then
        (if \<not> a_corrected a then
           Raises (if baseline_path = None then TypeError else FileNotFoundError) a
         else
           abs_baseline_value nm
             (a\<lparr>a_stdout := a_stdout a @ [''You have already substracted the buffer!'']\<rparr>))
      else abs_baseline_value nm a)"

text \<open>\<open>abs_spectra.integrate\<close>\<close>

definition abs_integrate :: "real \<Rightarrow> real \<Rightarrow> abs_spectra \<Rightarrow> abs_spectra outcome" where
  "abs_integrate wv_limit_lower wv_limit_upper a =
     (case riemann (a_wv_delta a) (deref (a_store a) (a_wavelength a))
             (deref (a_store a) (a_abs a)) wv_limit_lower wv_limit_upper of
        Inl e \<Rightarrow> Raises e a
      | Inr v \<Rightarrow> Returns (a\<lparr>a_integral := Some v\<rparr>))"

text \<open>\<open>abs_spectra.smooth\<close>\<close>

definition abs_smooth :: "env \<Rightarrow> int \<Rightarrow> int \<Rightarrow> abs_spectra \<Rightarrow> abs_spectra outcome" where
  "abs_smooth E wdw polyorder a =
     (case savgol_filter E (values_of (deref (a_store a) (a_abs a))) wdw polyorder of
        None \<Rightarrow> Raises ExternalError a
      | Some r \<Rightarrow> Returns (a\<lparr>a_smoothed := Some r\<rparr>))"

section \<open>CD melting spectra\<close>

text \<open>
  The long-form table of \<open>cd_melting_spectra\<close>: one row for each pair of a temperature
  column and a wavelength. The column added by \<open>mre\<close> is kept beside the rows and is
  \<open>None\<close> until \<open>mre\<close> adds it.
\<close>

record melt_row =
  r_wavelength :: val
  r_temperature :: string
  r_cd_raw :: val
  r_ht :: val
  r_cd_filtered :: val

record cd_melting_spectra =
  m_path :: string
  m_name :: string
  m_title :: "string option"
  m_info :: "(string \<times> string) list"
  m_wv_delta :: real
  m_wavelength :: "val list"
  m_temperatures :: "string list"
  m_data :: "melt_row list"
  m_cd_mre :: "val list option"
  m_cd_smoothed :: "val list option"
  m_mre_transformation :: bool
  m_integrals :: "real list option"

text \<open>\<open>sub in s\<close> on strings\<close>

fun contains :: "string \<Rightarrow> string \<Rightarrow> bool" where
  "contains sub [] = (sub = [])"
| "contains sub (c # cs) = (take (length sub) (c # cs) = sub \<or> contains sub cs)"

type_synonym melt_scan = "string option \<times> int option \<times> int option"

fun scan_channels :: "nat \<Rightarrow> string list list \<Rightarrow> melt_scan \<Rightarrow> error + melt_scan" where
  "scan_channels position [] st = Inr st"
| "scan_channels position (line # rest) (t, start, end) =
     (case line of
        [] \<Rightarrow> Inl IndexError
      | f # _ \<Rightarrow>
          (if contains ''TITLE'' f then
             (case split_on CHR '';'' f of
                _ # t' # _ \<Rightarrow> scan_channels (Suc position) rest (Some t', start, end)
              | _ \<Rightarrow> Inl IndexError)
           else if ''Channel 1'' \<in> set line then
             scan_channels (Suc position) rest (t, Some (int position + 1), end)
           else if ''Channel 2'' \<in> set line then
             Inr (t, start, Some (int position - 1))
           else scan_channels (Suc position) rest (t, start, end)))"

text \<open>
  \<open>DataFrame.melt\<close> with the wavelength column as identifier: the temperature columns
  one after the other, each paired with the wavelengths of the index.
\<close>

definition melt :: "string list \<Rightarrow> val list \<Rightarrow> val list list \<Rightarrow> (val \<times> string \<times> val) list" where
  "melt cs idx cells =
     concat (map (\<lambda>(j, c). map (\<lambda>(w, r). (w, c, cell r j)) (zip idx cells))
               (enumerate 0 cs))"

definition filtered_value :: "real \<Rightarrow> val \<Rightarrow> val \<Rightarrow> val" where
  "filtered_value ht_max h c = (if val_le h (Some ht_max) then c else None)"

definition merge_rows :: "real \<Rightarrow> (val \<times> string \<times> val) list \<Rightarrow> val list \<Rightarrow> melt_row list" where
  "merge_rows ht_max cd hts =
     map (\<lambda>((w, t, c), h).
            \<lparr>r_wavelength = w, r_temperature = t, r_cd_raw = c, r_ht = h,
             r_cd_filtered = filtered_value ht_max h c\<rparr>)
       (zip cd hts)"

text \<open>\<open>abs(float(info['DELTAX'][0].replace(',', '.')))\<close>\<close>

definition deltax :: "env \<Rightarrow> (string \<times> string) list \<Rightarrow> error + real" where
  "deltax E inf_tab =
     (case map_of inf_tab ''DELTAX'' of
        None \<Rightarrow> Inl KeyError
      | Some v \<Rightarrow>
          (case py_float E (str_replace '','' ''.'' v) of
             None \<Rightarrow> Inl ValueError
           | Some d \<Rightarrow> Inr \<bar>d\<bar>))"

text \<open>\<open>cd_melting_spectra.__init__\<close>\<close>

definition cd_melting_spectra_init :: "env \<Rightarrow> string \<Rightarrow> real \<Rightarrow> error + cd_melting_spectra" where
  "cd_melting_spectra_init E p ht_max =
     (case csv_reader E p of
        None \<Rightarrow> Inl FileNotFoundError
      | Some rows \<Rightarrow>
     (case scan_channels 0 rows (None, None, None) of
        Inl e \<Rightarrow> Inl e
      | Inr (t, start, end) \<Rightarrow>
     (case start of
        None \<Rightarrow> Inl UnboundLocalError
      | Some st \<Rightarrow>
     (case end of
        None \<Rightarrow> Inl UnboundLocalError
      | Some en \<Rightarrow>
     (case read_grid E p st (Some (en - st)) of
        None \<Rightarrow> Inl ExternalError
      | Some CD \<Rightarrow>
     (case read_grid E p (en + 2) None of
        None \<Rightarrow> Inl ExternalError
      | Some HT \<Rightarrow>
     (case read_info E p st of
        None \<Rightarrow> Inl ExternalError
      | Some itab \<Rightarrow>
     (case deltax E itab of
        Inl e \<Rightarrow> Inl e
      | Inr d \<Rightarrow>
         (let temps = map (str_replace '','' ''.'') (g_columns CD);
              cd = melt temps (g_index CD) (g_cells CD);
              hts = melt (map (str_replace '','' ''.'') (g_columns HT)) (g_index HT)
                      (g_cells HT)
          in Inr \<lparr>m_path = p, m_name = name_of_path p, m_title = t, m_info = itab,
                  m_wv_delta = d, m_wavelength = g_index CD, m_temperatures = temps,
                  m_data = merge_rows ht_max cd (map (\<lambda>(w, t, h). h) hts),
                  m_cd_mre = None, m_cd_smoothed = None, m_mre_transformation = False,
                  m_integrals = None\<rparr>)))))))))"

text \<open>\<open>cd_melting_spectra.mre\<close>\<close>

definition melt_mre ::
  "real \<Rightarrow> real \<Rightarrow> real \<Rightarrow> cd_melting_spectra \<Rightarrow> cd_melting_spectra outcome" where
  "melt_mre concentration aa_number pathlength m =
     Returns (m\<lparr>m_cd_mre :=
                  Some (map (\<lambda>r. val_div (r_cd_filtered r)
                                (10 * concentration * aa_number * pathlength)) (m_data m)),
                m_mre_transformation := True\<rparr>)"

text \<open>
  The column that \<open>smooth\<close> and \<open>integrate\<close> read: the mre column once
  \<open>mre_transformation\<close> is set, the filtered column before.
\<close>

definition active_column :: "cd_melting_spectra \<Rightarrow> error + val list" where
  "active_column m =
     (if m_mre_transformation m then
        (case m_cd_mre m of None \<Rightarrow> Inl KeyError | Some c \<Rightarrow> Inr c)
      else Inr (map r_cd_filtered (m_data m)))"

text \<open>\<open>cd_melting_spectra.smooth\<close>\<close>

definition melt_smooth ::
  "env \<Rightarrow> int \<Rightarrow> int \<Rightarrow> cd_melting_spectra \<Rightarrow> cd_melting_spectra outcome" where
  "melt_smooth E wdw polyorder m =
     (case active_column m of
        Inl e \<Rightarrow> Raises e m
      | Inr c \<Rightarrow>
          (case savgol_filter E c wdw polyorder of
             None \<Rightarrow> Raises ExternalError m
           | Some r \<Rightarrow> Returns (m\<lparr>m_cd_smoothed := Some r\<rparr>)))"

text \<open>
  \<open>cd_melting_spectra.integrate\<close>: for each temperature label, the sum of the active
  column over the rows of that temperature whose wavelength lies within the limits.
\<close>

definition in_window :: "real \<Rightarrow> real \<Rightarrow> string \<Rightarrow> melt_row \<Rightarrow> bool" where
  "in_window wv_limit_lower wv_limit_upper temperature r =
     (r_temperature r = temperature
      \<and> val_le (r_wavelength r) (Some wv_limit_upper)
      \<and> val_ge (r_wavelength r) (Some wv_limit_lower))"

definition melt_integral ::
  "real \<Rightarrow> val list \<Rightarrow> melt_row list \<Rightarrow> real \<Rightarrow> real \<Rightarrow> string \<Rightarrow> real" where
  "melt_integral delta c rows wv_limit_lower wv_limit_upper temperature =
     delta * nansum (map fst (filter (\<lambda>(v, r). in_window wv_limit_lower wv_limit_upper
                                                temperature r) (zip c rows)))"

definition melt_integrate ::
  "real \<Rightarrow> real \<Rightarrow> cd_melting_spectra \<Rightarrow> cd_melting_spectra outcome" where
  "melt_integrate wv_limit_lower wv_limit_upper m =
     (case active_column m of
        Inl e \<Rightarrow> Raises e m
      | Inr c \<Rightarrow>
          Returns (m\<lparr>m_integrals :=
                       Some (map (melt_integral (m_wv_delta m) c (m_data m)
                                    wv_limit_lower wv_limit_upper) (m_temperatures m))\<rparr>))"

section \<open>Sequences of operations\<close>

text \<open>
  A caller applies the methods one after the other; a method that raises leaves the
  record as it was when the exception left it, and the caller may go on.
\<close>

datatype cd_op =
    HtFilter
  | Baseline string
  | Smooth int int
  | Mre real real real
  | Integrate real real

fun cd_apply :: "env \<Rightarrow> cd_op \<Rightarrow> cd_spectra \<Rightarrow> cd_spectra outcome" where
  "cd_apply E HtFilter s = ht_filter s"
| "cd_apply E (Baseline p) s = baseline E p s"
| "cd_apply E (Smooth w k) s = smooth E w k s"
| "cd_apply E (Mre c n l) s = mre c n l s"
| "cd_apply E (Integrate lo hi) s = integrate lo hi s"

fun cd_run :: "env \<Rightarrow> cd_op list \<Rightarrow> cd_spectra \<Rightarrow> cd_spectra" where
  "cd_run E [] s = s"
| "cd_run E (x # xs) s = cd_run E xs (state_of (cd_apply E x s))"

datatype abs_op =
    AbsBaseline "string option" "real option"
  | AbsSmooth int int
  | ConcentrationCalc real real real
  | AbsIntegrate real real

fun abs_apply :: "env \<Rightarrow> abs_op \<Rightarrow> abs_spectra \<Rightarrow> abs_spectra outcome" where
  "abs_apply E (AbsBaseline p nm) a = abs_baseline p nm a"
| "abs_apply E (AbsSmooth w k) a = abs_smooth E w k a"
| "abs_apply E (ConcentrationCalc wv eps l) a = concentration_calc wv eps l a"
| "abs_apply E (AbsIntegrate lo hi) a = abs_integrate lo hi a"

fun abs_run :: "env \<Rightarrow> abs_op list \<Rightarrow> abs_spectra \<Rightarrow> abs_spectra" where
  "abs_run E [] a = a"
| "abs_run E (x # xs) a = abs_run E xs (state_of (abs_apply E x a))"

section \<open>Records as the methods leave them\<close>

text \<open>
  A domain is strictly descending when every sample is a number and each is greater
  than all that follow.
\<close>

definition descending :: "val list \<Rightarrow> bool" where
  "descending vs =
     (list_all (\<lambda>v. v \<noteq> None) vs
      \<and> sorted_wrt (\<lambda>a b. case (a, b) of (Some x, Some y) \<Rightarrow> y < x | _ \<Rightarrow> False) vs)"

text \<open>The number of samples an uncorrected record holds.\<close>

definition kept :: "cd_spectra \<Rightarrow> nat" where
  "kept s =
     (if filtered s then nat (idx_cutoff s + 1) else length (the_wavelength_raw s))"

text \<open>
  What the constructor establishes and every method keeps: the attributes refer to
  objects of the store, the raw wavelengths carry the labels of the file, the bounds and
  the cutoff were read from them, and until a baseline is subtracted the current series
  are the first \<open>kept\<close> samples of the file.
\<close>

definition cd_wf :: "cd_spectra \<Rightarrow> bool" where
  "cd_wf s =
     (wavelength_raw s < length (store s) \<and> ellipticity_raw s < length (store s)
      \<and> wavelength s < length (store s) \<and> ellipticity s < length (store s)
      \<and> the_wavelength_raw s \<noteq> []
      \<and> labels (the_wavelength_raw s) = [0..<length (the_wavelength_raw s)]
      \<and> iloc_at (- 1) (values_of (the_wavelength_raw s)) = Inr (wv_min s)
      \<and> iloc_at 0 (values_of (the_wavelength_raw s)) = Inr (wv_max s)
      \<and> iloc_at (idx_cutoff s) (values_of (the_wavelength_raw s)) = Inr (wv_cutoff s)
      \<and> - 1 \<le> idx_cutoff s \<and> idx_cutoff s < int (length (the_wavelength_raw s))
      \<and> (\<not> corrected s \<longrightarrow>
            the_wavelength s = take (kept s) (the_wavelength_raw s)
            \<and> labels (the_ellipticity s) = [0..<kept s]))"

text \<open>
  What a method may do to the parsed data: the store only grows (the objects that were
  there are still there, unchanged), and the raw attributes, the data table and the
  column names are not rebound.
\<close>

definition cd_frame :: "cd_spectra \<Rightarrow> cd_spectra \<Rightarrow> bool" where
  "cd_frame s s' =
     (take (length (store s)) (store s') = store s
      \<and> ellipticity_raw s' = ellipticity_raw s \<and> wavelength_raw s' = wavelength_raw s
      \<and> data s' = data s \<and> cols s' = cols s)"

definition abs_frame :: "abs_spectra \<Rightarrow> abs_spectra \<Rightarrow> bool" where
  "abs_frame a a' =
     (take (length (a_store a)) (a_store a') = a_store a
      \<and> a_abs_raw a' = a_abs_raw a \<and> a_data a' = a_data a \<and> a_cols a' = a_cols a)"

section \<open>A sample run\<close>

text \<open>
  A small CD file with three samples, its blank over the same wavelengths, a file whose
  first HT value is already above the threshold, a file without any data section, an
  absorbance file, and a melting grid of two wavelengths at two temperatures.
\<close>

definition sample_rows :: "string list list" where
  "sample_rows =
     [[''TITLE;sample''], [''XYDATA''], [''250;1;300''], [''249;2;700''], [''248;3;800''],
      [], [''##### Extended Information''], [''Data pitch;1 nm'']]"

definition sample_table :: "val list list" where
  "sample_table =
     [[Some 250, Some 1, Some 300], [Some 249, Some 2, Some 700], [Some 248, Some 3, Some 800]]"

definition blank_table :: "val list list" where
  "blank_table =
     [[Some 250, Some (1/2), Some 290], [Some 249, Some (1/2), Some 310],
      [Some 248, Some (1/2), Some 330]]"

definition hot_table :: "val list list" where
  "hot_table =
     [[Some 250, Some 1, Some 700], [Some 249, Some 2, Some 300], [Some 248, Some 3, Some 300]]"

definition abs_table :: "val list list" where
  "abs_table = [[Some 250, Some (1/2)], [Some 249, Some (1/2)], [Some 248, Some (1/2)]]"

definition melt_rows :: "string list list" where
  "melt_rows =
     [[''TITLE;melt''], [''Channel 1''], [''nm;20;30''], [''250;1;3''], [''249;2;4''],
      [''end''], [''Channel 2''], [''nm;20;30''], [''250;300;300''], [''249;700;400'']]"

definition melt_cd_grid :: grid where
  "melt_cd_grid =
     \<lparr>g_columns = [''20'', ''30''], g_index = [Some 250, Some 249],
      g_cells = [[Some 1, Some 3], [Some 2, Some 4]]\<rparr>"

definition melt_ht_grid :: grid where
  "melt_ht_grid =
     \<lparr>g_columns = [''20'', ''30''], g_index = [Some 250, Some 249],
      g_cells = [[Some 300, Some 300], [Some 700, Some 400]]\<rparr>"

definition sample_env :: env where
  "sample_env =
     \<lparr>csv_reader = (\<lambda>p. if p = ''nodata.csv'' then Some [[''TITLE;empty''], [''250;1;300'']]
                        else if p = ''missing.csv'' then None
                        else if p = ''melt.csv'' then Some melt_rows
                        else Some sample_rows),
      read_info = (\<lambda>p n. if p = ''melt.csv'' then Some [(''DELTAX'', ''-1'')]
                          else Some [(''TITLE'', ''sample'')]),
      read_data = (\<lambda>p cs h n. if p = ''blank.csv'' then Some blank_table
                              else if p = ''hot.csv'' then Some hot_table
                              else if p = ''abs.csv'' then Some abs_table
                              else Some sample_table),
      read_metadata = (\<lambda>p n. Some [(''Data pitch'', ''1 nm'')]),
      py_float = (\<lambda>x. if x = ''1'' then Some 1 else if x = ''-1'' then Some (- 1) else None),
      savgol_filter = (\<lambda>v w k. Some v),
      read_grid = (\<lambda>p h n. if p = ''melt.csv''
                            then (case n of None \<Rightarrow> Some melt_ht_grid
                                  | Some k \<Rightarrow> Some melt_cd_grid)
                            else None)\<rparr>"

text \<open>The record that \<open>cd_spectra('sample.csv')\<close> builds in this environment.\<close>

definition sample_cd :: cd_spectra where
  "sample_cd =
     \<lparr>store = [[(0, Some 250), (1, Some 249), (2, Some 248)],
               [(0, Some 1), (1, Some 2), (2, Some 3)],
               [(0, Some 300), (1, Some 700), (2, Some 800)]],
      stdout = [], path = ''sample.csv'', name = ''sample'',
      cols = [''Wavelength [nm]'', ''CD [mdeg]'', ''HT [V]''],
      title = Some ''sample'', info = [(''TITLE'', ''sample'')], data = sample_table,
      metadata = [(''Data pitch'', ''1 nm'')],
      wavelength_raw = 0, wavelength = 0, ellipticity_raw = 1, ellipticity = 1,
      ht = 2, absorbance = None, wv_min = Some 248, wv_max = Some 250,
      idx_cutoff = 0, wv_cutoff = Some 250, filtered = False, corrected = False,
      wv_delta = 1, blank = None, smoothed = None, integral = None\<rparr>"

text \<open>The sample record after \<open>ht_filter()\<close>.\<close>

definition sample_filtered :: cd_spectra where
  "sample_filtered =
     sample_cd\<lparr>store := store sample_cd @ [[(0, Some 1)], [(0, Some 250)]],
               ellipticity := 3, wavelength := 4, filtered := True\<rparr>"

text \<open>The record that \<open>abs_spectra('abs.csv')\<close> builds in this environment.\<close>

definition sample_abs :: abs_spectra where
  "sample_abs =
     \<lparr>a_store = [[(0, Some 250), (1, Some 249), (2, Some 248)],
                 [(0, Some (1/2)), (1, Some (1/2)), (2, Some (1/2))]],
      a_stdout = [], a_path = ''abs.csv'', a_name = ''abs'',
      a_cols = [''Wavelength [nm]'', ''Abs [UA]''],
      a_title = Some ''sample'', a_info = [(''TITLE'', ''sample'')], a_data = abs_table,
      a_metadata = [(''Data pitch'', ''1 nm'')],
      a_wavelength = 0, a_abs_raw = 1, a_abs = 1,
      a_wv_min = Some 248, a_wv_max = Some 250, a_corrected = False, a_wv_delta = 1,
      a_nm = None, a_blank = None, a_smoothed = None, a_concentration = None,
      a_integral = None\<rparr>"

text \<open>The record that \<open>cd_melting_spectra('melt.csv')\<close> builds in this environment.\<close>

definition sample_melt :: cd_melting_spectra where
  "sample_melt =
     \<lparr>m_path = ''melt.csv'', m_name = ''melt'', m_title = Some ''melt'',
      m_info = [(''DELTAX'', ''-1'')], m_wv_delta = 1,
      m_wavelength = [Some 250, Some 249], m_temperatures = [''20'', ''30''],
      m_data =
        [\<lparr>r_wavelength = Some 250, r_temperature = ''20'', r_cd_raw = Some 1,
          r_ht = Some 300, r_cd_filtered = Some 1\<rparr>,
         \<lparr>r_wavelength = Some 249, r_temperature = ''20'', r_cd_raw = Some 2,
          r_ht = Some 700, r_cd_filtered = None\<rparr>,
         \<lparr>r_wavelength = Some 250, r_temperature = ''30'', r_cd_raw = Some 3,
          r_ht = Some 300, r_cd_filtered = Some 3\<rparr>,
         \<lparr>r_wavelength = Some 249, r_temperature = ''30'', r_cd_raw = Some 4,
          r_ht = Some 400, r_cd_filtered = Some 4\<rparr>],
      m_cd_mre = None, m_cd_smoothed = None, m_mre_transformation = False,
      m_integrals = None\<rparr>"

section \<open>Series and constructor lemmas\<close>

lemma first_exceeding_None:
  "first_exceeding m p hs = None \<longleftrightarrow> (\<forall>h \<in> set hs. \<not> val_gt h m)"
  by (induction hs arbitrary: p) auto

lemma first_exceeding_Some:
  "first_exceeding m p hs = Some k \<Longrightarrow>
     p \<le> k \<and> k - p < length hs \<and> val_gt (hs ! (k - p)) m \<and> (\<forall>j < k - p. \<not> val_gt (hs ! j) m)"
proof (induction hs arbitrary: p)
  case Nil
  then show ?case by simp
next
  case (Cons h hs)
  show ?case
  proof (cases "val_gt h m")
    case True
    with Cons.prems show ?thesis by simp
  next
    case False
    with Cons.prems have r: "first_exceeding m (Suc p) hs = Some k" by simp
    from Cons.IH [OF r] have a: "Suc p \<le> k" "k - Suc p < length hs"
      "val_gt (hs ! (k - Suc p)) m" "\<forall>j < k - Suc p. \<not> val_gt (hs ! j) m" by auto
    have e: "k - p = Suc (k - Suc p)" using a(1) by simp
    show ?thesis using a False unfolding e
      by (auto simp: nth_Cons split: nat.splits)
  qed
qed

lemma length_column [simp]: "length (column cs rows c) = length rows"
  by (simp add: column_def)

lemma length_mk_series [simp]: "length (mk_series vs) = length vs"
  by (simp add: mk_series_def)

lemma labels_mk_series [simp]: "labels (mk_series vs) = [0..<length vs]"
  by (simp add: mk_series_def labels_def)

lemma values_mk_series [simp]: "values_of (mk_series vs) = vs"
  by (simp add: mk_series_def values_of_def)

lemma nth_mk_series: "i < length vs \<Longrightarrow> mk_series vs ! i = (i, vs ! i)"
  by (simp add: mk_series_def)

lemma cd_spectra_init_shape:
  assumes "cd_spectra_init E p ht_max ab = Inr s"
  obtains wl cd hts where
    "length cd = length wl" "length hts = length wl" "wl \<noteq> []"
    "3 \<le> length (store s)"
    "store s ! 0 = mk_series wl" "store s ! Suc 0 = mk_series cd" "store s ! 2 = mk_series hts"
    "wavelength_raw s = 0" "wavelength s = 0" "ellipticity_raw s = Suc 0" "ellipticity s = Suc 0"
    "ht s = 2" "\<not> filtered s" "\<not> corrected s"
    "idx_cutoff s = position_cutoff ht_max wl hts - 1"
    "iloc_at (- 1) wl = Inr (wv_min s)" "iloc_at 0 wl = Inr (wv_max s)"
    "iloc_at (idx_cutoff s) wl = Inr (wv_cutoff s)"
proof -
  from assms obtain sec where rs: "read_sections E p (cd_cols ab) = Inr sec"
    unfolding cd_spectra_init_def by (auto split: sum.splits)
  define wl where "wl = column (cd_cols ab) (sec_data sec) ''Wavelength [nm]''"
  define cd where "cd = column (cd_cols ab) (sec_data sec) ''CD [mdeg]''"
  define hts where "hts = column (cd_cols ab) (sec_data sec) ''HT [V]''"
  have len: "length cd = length wl" "length hts = length wl"
    by (simp_all add: wl_def cd_def hts_def)
  from assms rs obtain wmin wmax wcut d where
    a: "iloc_at (- 1) wl = Inr wmin" "iloc_at 0 wl = Inr wmax"
       "iloc_at (position_cutoff ht_max wl hts - 1) wl = Inr wcut"
    and s: "s = \<lparr>store = [mk_series wl, mk_series cd, mk_series hts]
            @ (if ab then [mk_series (column (cd_cols ab) (sec_data sec) ''Abs [UA]'')] else []),
               stdout = [], path = p, name = name_of_path p, cols = cd_cols ab,
               title = sec_title sec, info = sec_info sec, data = sec_data sec,
               metadata = sec_metadata sec,
               wavelength_raw = 0, wavelength = 0,
               ellipticity_raw = 1, ellipticity = 1,
               ht = 2, absorbance = (if ab then Some 3 else None),
               wv_min = wmin, wv_max = wmax,
               idx_cutoff = position_cutoff ht_max wl hts - 1, wv_cutoff = wcut,
               filtered = False, corrected = False, wv_delta = d,
               blank = None, smoothed = None, integral = None\<rparr>"
    unfolding cd_spectra_init_def Let_def wl_def cd_def hts_def
    by (auto split: sum.splits)
  from a(2) have ne: "wl \<noteq> []" by (auto simp: iloc_at_def split: if_splits)
  show ?thesis
    by (rule that [of cd wl hts]) (use len ne a in \<open>simp_all add: s\<close>)
qed

lemma position_cutoff_range:
  "length hts = length wl \<Longrightarrow> 0 \<le> position_cutoff m wl hts \<and> position_cutoff m wl hts \<le> int (length wl)"
  unfolding position_cutoff_def
  by (auto split: option.splits dest!: first_exceeding_Some)

lemma position_cutoff_first:
  assumes "i < length hts" "val_gt (hts ! i) m" "\<forall>j<i. \<not> val_gt (hts ! j) m"
  shows "position_cutoff m wl hts = int i"
proof (cases "first_exceeding m 0 hts")
  case None
  then have "\<not> val_gt (hts ! i) m" using assms(1) by (simp add: first_exceeding_None)
  with assms(2) show ?thesis by simp
next
  case (Some k)
  from first_exceeding_Some [OF Some]
  have k: "k < length hts" "val_gt (hts ! k) m" "\<forall>j<k. \<not> val_gt (hts ! j) m" by auto
  have "k = i"
  proof (rule ccontr)
    assume "k \<noteq> i"
    then consider "k < i" | "i < k" by linarith
    then show False using k assms by cases auto
  qed
  with Some show ?thesis by (simp add: position_cutoff_def)
qed

lemma position_cutoff_none:
  assumes "\<forall>i<length hts. \<not> val_gt (hts ! i) m"
  shows "position_cutoff m wl hts = int (length wl)"
proof -
  have "first_exceeding m 0 hts = None"
    using assms by (auto simp: first_exceeding_None in_set_conv_nth)
  then show ?thesis by (simp add: position_cutoff_def)
qed

lemma iloc_upto_take:
  "0 \<le> b \<Longrightarrow> b \<le> int (length xs) \<Longrightarrow> iloc_upto b xs = take (nat b) xs"
  by (simp add: iloc_upto_def slice_bound_def min_def)

lemma take_mk_series: "k \<le> length vs \<Longrightarrow> take k (mk_series vs) = mk_series (take k vs)"
  by (simp add: mk_series_def take_zip min_def)

lemma snd_nth_mk_series: "i < length vs \<Longrightarrow> snd (mk_series vs ! i) = vs ! i"
  by (simp add: mk_series_def)

lemma scan_sample: "scan_lines 0 sample_rows (None, None, None) = Inr (Some ''sample'', Some 2, Some 5)"
  by (simp add: sample_rows_def title_of_def)

lemma sections_sample:
  "read_sections sample_env ''sample.csv'' cs =
     Inr \<lparr>sec_title = Some ''sample'', sec_info = [(''TITLE'', ''sample'')], sec_data = sample_table,
          sec_metadata = [(''Data pitch'', ''1 nm'')]\<rparr>"
  by (simp add: read_sections_def sample_env_def scan_sample)

lemma pitch_sample: "data_pitch sample_env [(''Data pitch'', ''1 nm'')] = Inr 1"
  by (simp add: data_pitch_def sample_env_def str_replace_def)

lemma name_sample: "name_of_path ''sample.csv'' = ''sample''"
  by (simp add: name_of_path_def basename_def iloc_upto_def slice_bound_def)

lemma init_sample: "cd_spectra_init sample_env ''sample.csv'' 600 False = Inr sample_cd"
  by (simp add: cd_spectra_init_def sections_sample pitch_sample name_sample cd_cols_def
      sample_table_def column_def cell_def iloc_at_def position_cutoff_def mk_series_def
      sample_cd_def upt_rec Let_def)

section \<open>The cutoff index and the HT filter\<close>

text \<open>
  C1. A CD record built with the threshold \<open>ht_max\<close> has \<open>idx_cutoff\<close> equal to the
  first index whose HT sample is strictly above \<open>ht_max\<close>, minus one, and equal to the
  last index when no HT sample is above it. The first \<open>ht_filter()\<close> on that record
  returns, sets \<open>filtered\<close> and rebinds ellipticity and wavelength to their first
  \<open>idx_cutoff + 1\<close> samples, which keep the labels \<open>0 .. idx_cutoff\<close>.
\<close>

theorem cutoff_and_filter:
  assumes "cd_spectra_init E p ht_max ab = Inr s"
  shows "(\<forall>i. i < length (the_ht s) \<and> val_gt (snd (the_ht s ! i)) ht_max
               \<and> (\<forall>j<i. \<not> val_gt (snd (the_ht s ! j)) ht_max)
             \<longrightarrow> idx_cutoff s = int i - 1)
       \<and> ((\<forall>i<length (the_ht s). \<not> val_gt (snd (the_ht s ! i)) ht_max)
             \<longrightarrow> idx_cutoff s = int (length (the_wavelength s)) - 1)
       \<and> (\<exists>s'. ht_filter s = Returns s' \<and> filtered s'
             \<and> the_ellipticity s' = take (nat (idx_cutoff s + 1)) (the_ellipticity s)
             \<and> the_wavelength s' = take (nat (idx_cutoff s + 1)) (the_wavelength s)
             \<and> length (the_ellipticity s') = nat (idx_cutoff s + 1)
             \<and> length (the_wavelength s') = nat (idx_cutoff s + 1)
             \<and> labels (the_ellipticity s') = [0..<nat (idx_cutoff s + 1)]
             \<and> labels (the_wavelength s') = [0..<nat (idx_cutoff s + 1)])"
proof -
  from assms obtain wl cd hts where
    len: "length cd = length wl" "length hts = length wl"
    and st3: "3 \<le> length (store s)"
    and st: "store s ! 0 = mk_series wl" "store s ! Suc 0 = mk_series cd" "store s ! 2 = mk_series hts"
    and refs: "wavelength s = 0" "ellipticity s = Suc 0" "ht s = 2"
    and nf: "\<not> filtered s"
    and i: "idx_cutoff s = position_cutoff ht_max wl hts - 1"
    by (rule cd_spectra_init_shape)
  have w: "the_wavelength s = mk_series wl"
    by (simp add: the_wavelength_def deref_def st refs)
  have e: "the_ellipticity s = mk_series cd"
    by (simp add: the_ellipticity_def deref_def st refs)
  have h: "the_ht s = mk_series hts"
    by (simp add: the_ht_def deref_def st refs)
  from position_cutoff_range [OF len(2), of ht_max]
  have rg: "0 \<le> idx_cutoff s + 1" "idx_cutoff s + 1 \<le> int (length wl)"
    by (simp_all add: i)
  have c1: "\<forall>i. i < length (the_ht s) \<and> val_gt (snd (the_ht s ! i)) ht_max
               \<and> (\<forall>j<i. \<not> val_gt (snd (the_ht s ! j)) ht_max)
             \<longrightarrow> idx_cutoff s = int i - 1"
  proof (intro allI impI)
    fix k
    assume a: "k < length (the_ht s) \<and> val_gt (snd (the_ht s ! k)) ht_max
               \<and> (\<forall>j<k. \<not> val_gt (snd (the_ht s ! j)) ht_max)"
    then have k: "k < length hts" by (simp add: h)
    from a k have g: "val_gt (hts ! k) ht_max" by (simp add: h snd_nth_mk_series)
    from a k have m: "\<forall>j<k. \<not> val_gt (hts ! j) ht_max" by (simp add: h snd_nth_mk_series)
    show "idx_cutoff s = int k - 1"
      using position_cutoff_first [OF k g m, of wl] by (simp add: i)
  qed
  have c2: "(\<forall>i<length (the_ht s). \<not> val_gt (snd (the_ht s ! i)) ht_max)
             \<longrightarrow> idx_cutoff s = int (length (the_wavelength s)) - 1"
  proof
    assume "\<forall>i<length (the_ht s). \<not> val_gt (snd (the_ht s ! i)) ht_max"
    then have "\<forall>i<length hts. \<not> val_gt (hts ! i) ht_max" by (simp add: h snd_nth_mk_series)
    from position_cutoff_none [OF this, of wl]
    show "idx_cutoff s = int (length (the_wavelength s)) - 1" by (simp add: i w)
  qed
  define k where "k = nat (idx_cutoff s + 1)"
  have kl: "k \<le> length wl" "k \<le> length cd" using rg by (simp_all add: k_def len)
  define s' where "s' = s\<lparr>store := store s @ [take k (mk_series cd), take k (mk_series wl)],
      ellipticity := length (store s), wavelength := Suc (length (store s)), filtered := True\<rparr>"
  have sne: "store s \<noteq> []" "0 < length (store s)" "Suc 0 < length (store s)"
    using st3 by auto
  have r: "ht_filter s = Returns s'"
    using nf rg sne by (simp add: ht_filter_def alloc_def s'_def 
        deref_def nth_append st refs iloc_upto_take len k_def)
  have e': "the_ellipticity s' = take k (mk_series cd)"
    by (simp add: s'_def the_ellipticity_def deref_def nth_append)
  have w': "the_wavelength s' = take k (mk_series wl)"
    by (simp add: s'_def the_wavelength_def deref_def nth_append)
  have c3: "\<exists>s'. ht_filter s = Returns s' \<and> filtered s'
             \<and> the_ellipticity s' = take (nat (idx_cutoff s + 1)) (the_ellipticity s)
             \<and> the_wavelength s' = take (nat (idx_cutoff s + 1)) (the_wavelength s)
             \<and> length (the_ellipticity s') = nat (idx_cutoff s + 1)
             \<and> length (the_wavelength s') = nat (idx_cutoff s + 1)
             \<and> labels (the_ellipticity s') = [0..<nat (idx_cutoff s + 1)]
             \<and> labels (the_wavelength s') = [0..<nat (idx_cutoff s + 1)]"
  proof (rule exI [of _ s'], intro conjI)
    show "ht_filter s = Returns s'" by (rule r)
    show "filtered s'" by (simp add: s'_def)
  qed (use kl in \<open>simp_all add: e' w' e w k_def [symmetric] take_mk_series min_def\<close>)
  from c1 c2 c3 show ?thesis by blast
qed

lemma init_sample_1000:
  "cd_spectra_init sample_env ''sample.csv'' 1000 False
     = Inr (sample_cd\<lparr>idx_cutoff := 2, wv_cutoff := Some 248\<rparr>)"
  by (simp add: cd_spectra_init_def sections_sample pitch_sample name_sample cd_cols_def
      sample_table_def column_def cell_def iloc_at_def position_cutoff_def mk_series_def
      sample_cd_def upt_rec Let_def)

theorem cutoff_and_filter_witness:
  "cd_spectra_init sample_env ''sample.csv'' 600 False = Inr sample_cd
   \<and> val_gt (snd (the_ht sample_cd ! 1)) 600 \<and> \<not> val_gt (snd (the_ht sample_cd ! 0)) 600
   \<and> idx_cutoff sample_cd = 0
   \<and> (\<exists>s'. ht_filter sample_cd = Returns s' \<and> filtered s'
          \<and> the_ellipticity s' = [(0, Some 1)] \<and> the_wavelength s' = [(0, Some 250)])"
proof -
  note t = cutoff_and_filter [OF init_sample]
  have h: "1 < length (the_ht sample_cd) \<and> val_gt (snd (the_ht sample_cd ! 1)) 600
           \<and> (\<forall>j<1. \<not> val_gt (snd (the_ht sample_cd ! j)) 600)"
    by (simp add: the_ht_def deref_def sample_cd_def)
  from t have "\<forall>i. i < length (the_ht sample_cd) \<and> val_gt (snd (the_ht sample_cd ! i)) 600
               \<and> (\<forall>j<i. \<not> val_gt (snd (the_ht sample_cd ! j)) 600)
             \<longrightarrow> idx_cutoff sample_cd = int i - 1" by (rule conjunct1)
  with h have i: "idx_cutoff sample_cd = int 1 - 1" by blast
  from t obtain s' where s': "ht_filter sample_cd = Returns s'" "filtered s'"
     "the_ellipticity s' = take (nat (idx_cutoff sample_cd + 1)) (the_ellipticity sample_cd)"
     "the_wavelength s' = take (nat (idx_cutoff sample_cd + 1)) (the_wavelength sample_cd)"
    by blast
  have e: "the_ellipticity sample_cd = [(0, Some 1), (1, Some 2), (2, Some 3)]"
    by (simp add: the_ellipticity_def deref_def sample_cd_def)
  have w: "the_wavelength sample_cd = [(0, Some 250), (1, Some 249), (2, Some 248)]"
    by (simp add: the_wavelength_def deref_def sample_cd_def)
  from s' i have "\<exists>s'. ht_filter sample_cd = Returns s' \<and> filtered s'
          \<and> the_ellipticity s' = [(0, Some 1)] \<and> the_wavelength s' = [(0, Some 250)]"
    by (simp add: e w)
  with h i init_sample show ?thesis by simp
qed

lemma select_rows_prefix:
  assumes "a + b = length xs"
  shows "select_rows (replicate a True @ replicate b False) xs = take a xs"
proof -
  have x: "xs = take a xs @ drop a xs" by simp
  have la: "length (take a xs) = a" using assms by auto
  have "zip (replicate a True @ replicate b False) xs
        = zip (replicate a True) (take a xs) @ zip (replicate b False) (drop a xs)"
    by (subst x, subst zip_append) (use assms in auto)
  moreover have "filter fst (zip (replicate a True) (take a xs)) = zip (replicate a True) (take a xs)"
    by (rule filter_True) (auto dest: set_zip_leftD)
  moreover have "filter fst (zip (replicate b False) (drop a xs)) = []"
    by (rule filter_False) (auto dest: set_zip_leftD)
  moreover have "map snd (zip (replicate a True) (take a xs)) = take a xs"
    using la by (simp add: map_snd_zip)
  ultimately show ?thesis by (simp add: select_rows_def)
qed

lemma nth_prefix_mask:
  "i < a + b \<Longrightarrow> (replicate a True @ replicate b False) ! i = (i < a)"
  by (simp add: nth_append)

lemma descending_nth:
  assumes "descending vs" "i < length vs"
  obtains x where "vs ! i = Some x"
  using assms by (auto simp: descending_def list_all_length)

lemma descending_less:
  assumes "descending vs" "i < j" "j < length vs" "vs ! i = Some x" "vs ! j = Some y"
  shows "y < x"
proof -
  from assms(1) have "sorted_wrt (\<lambda>a b. case (a, b) of (Some x, Some y) \<Rightarrow> y < x | _ \<Rightarrow> False) vs"
    by (simp add: descending_def)
  from sorted_wrt_nth_less [OF this assms(2,3)] assms(4,5) show ?thesis by simp
qed

lemma descending_le_iff:
  assumes "descending vs" "i < length vs" "j < length vs"
  shows "val_ge (vs ! i) (vs ! j) \<longleftrightarrow> i \<le> j"
proof -
  from assms obtain x y where x: "vs ! i = Some x" and y: "vs ! j = Some y"
    by (meson descending_nth)
  consider "i < j" | "i = j" | "j < i" by linarith
  then show ?thesis
  proof cases
    case 1
    from descending_less [OF assms(1) 1 assms(3) x y] 1 show ?thesis by (simp add: x y)
  next
    case 2
    then show ?thesis using x y by simp
  next
    case 3
    from descending_less [OF assms(1) 3 assms(2) y x] 3 show ?thesis by (simp add: x y)
  qed
qed

lemma descending_le_first:
  assumes "descending vs" "i < length vs"
  shows "val_le (vs ! i) (vs ! 0)"
proof -
  have z: "0 < length vs" using assms(2) by auto
  from assms z obtain x y where x: "vs ! i = Some x" and y: "vs ! 0 = Some y"
    by (meson descending_nth)
  show ?thesis
  proof (cases "i = 0")
    case True
    then show ?thesis using x by simp
  next
    case False
    then have "0 < i" by simp
    from descending_less [OF assms(1) this assms(2) y x] show ?thesis by (simp add: x y)
  qed
qed

lemma blank_mask_prefix:
  assumes "descending vs" "j < length vs"
  shows "blank_mask (vs ! j) (vs ! 0) vs
         = replicate (Suc j) True @ replicate (length vs - Suc j) False"
proof (rule nth_equalityI)
  show "length (blank_mask (vs ! j) (vs ! 0) vs)
        = length (replicate (Suc j) True @ replicate (length vs - Suc j) False)"
    using assms(2) by (simp add: blank_mask_def)
next
  fix i
  assume "i < length (blank_mask (vs ! j) (vs ! 0) vs)"
  then have i: "i < length vs" by (simp add: blank_mask_def)
  have "blank_mask (vs ! j) (vs ! 0) vs ! i = (i \<le> j)"
    using i descending_le_iff [OF assms(1) i assms(2)] descending_le_first [OF assms(1) i]
    by (simp add: blank_mask_def)
  also have "\<dots> = (replicate (Suc j) True @ replicate (length vs - Suc j) False) ! i"
    using i assms(2) by (subst nth_prefix_mask) auto
  finally show "blank_mask (vs ! j) (vs ! 0) vs ! i
        = (replicate (Suc j) True @ replicate (length vs - Suc j) False) ! i" .
qed

lemma select_rows_window:
  assumes "descending vs" "j < length vs" "length xs = length vs"
  shows "select_rows (blank_mask (vs ! j) (vs ! 0) vs) xs = take (Suc j) xs"
  using assms by (simp add: blank_mask_prefix select_rows_prefix del: replicate.simps)

lemma labels_length: "labels ser = [0..<m] \<Longrightarrow> length ser = m"
  by (metis labels_def length_map length_upt minus_nat.diff_0)

lemma lookup_label_positional:
  assumes "labels ser = [0..<m]"
  shows "lookup_label ser i = (if i < m then snd (ser ! i) else None)"
proof (cases "i < m")
  case True
  have len: "length ser = m" using assms by (rule labels_length)
  have z: "ser = zip [0..<m] (map snd ser)"
    using assms by (metis labels_def zip_map_fst_snd)
  have "map_of (zip [0..<m] (map snd ser)) ([0..<m] ! i) = Some (map snd ser ! i)"
    by (rule map_of_zip_nth) (use True len in simp_all)
  then have "map_of ser i = Some (snd (ser ! i))"
    using True len z by simp
  then show ?thesis using True by (simp add: lookup_label_def)
next
  case False
  then have "i \<notin> fst ` set ser"
    using assms by (metis labels_def set_map atLeastLessThan_iff set_upt)
  then have "map_of ser i = None" by (simp add: map_of_eq_None_iff)
  then show ?thesis using False by (simp add: lookup_label_def)
qed

lemma sort_remdups_upt: "sort (remdups ([0..<a] @ [0..<b])) = [0..<max a b]"
proof (rule sorted_distinct_set_unique)
  show "set (sort (remdups ([0..<a] @ [0..<b]))) = set [0..<max a b]" by auto
qed simp_all

lemma sub_series_positional:
  assumes "labels a = [0..<ma]" "labels b = [0..<mb]"
  shows "sub_series a b
         = map (\<lambda>i. (i, val_sub (lookup_label a i) (lookup_label b i))) [0..<max ma mb]"
proof (cases "ma = mb")
  case False
  then have "labels a \<noteq> labels b" using assms
    by (metis labels_def labels_length length_map)
  then show ?thesis by (simp add: sub_series_def assms sort_remdups_upt)
next
  case True
  have la: "length a = ma" and lb: "length b = ma"
    using assms True by (auto dest: labels_length)
  have "sub_series a b = map (\<lambda>(p, q). (fst p, val_sub (snd p) (snd q))) (zip a b)"
    using assms True by (simp add: sub_series_def)
  also have "\<dots> = map (\<lambda>i. (i, val_sub (lookup_label a i) (lookup_label b i))) [0..<ma]"
  proof (rule nth_equalityI)
    show "length (map (\<lambda>(p, q). (fst p, val_sub (snd p) (snd q))) (zip a b))
          = length (map (\<lambda>i. (i, val_sub (lookup_label a i) (lookup_label b i))) [0..<ma])"
      by (simp add: la lb)
  next
    fix i
    assume "i < length (map (\<lambda>(p, q). (fst p, val_sub (snd p) (snd q))) (zip a b))"
    then have i: "i < ma" by (simp add: la lb)
    have f: "fst (a ! i) = i"
      using assms(1) i la by (metis labels_def nth_map nth_upt add_0)
    show "map (\<lambda>(p, q). (fst p, val_sub (snd p) (snd q))) (zip a b) ! i
          = map (\<lambda>i. (i, val_sub (lookup_label a i) (lookup_label b i))) [0..<ma] ! i"
      using i la lb f assms True by (simp add: lookup_label_positional)
  qed
  finally show ?thesis using True by simp
qed

lemma select_rows_filter:
  "select_rows (map P (values_of ser)) ser = filter (\<lambda>p. P (snd p)) ser"
  by (induction ser) (simp_all add: select_rows_def values_of_def)

lemma iloc_at_last: "xs \<noteq> [] \<Longrightarrow> iloc_at (- 1) xs = Inr (xs ! (length xs - 1))"
  by (cases xs) (auto simp: iloc_at_def nat_diff_distrib')

lemma iloc_at_nat: "0 \<le> i \<Longrightarrow> i < int (length xs) \<Longrightarrow> iloc_at i xs = Inr (xs ! nat i)"
  by (simp add: iloc_at_def)

lemma labels_take_mk_series: "k \<le> length vs \<Longrightarrow> labels (take k (mk_series vs)) = [0..<k]"
  by (simp add: take_mk_series)

lemma snd_nth_take_mk_series:
  "i < k \<Longrightarrow> k \<le> length vs \<Longrightarrow> snd (take k (mk_series vs) ! i) = vs ! i"
  by (simp add: snd_nth_mk_series)

lemma baseline_window:
  assumes wf: "cd_wf s" and desc: "descending (values_of (the_wavelength_raw s))"
  defines "wl \<equiv> values_of (the_wavelength_raw s)"
  defines "j \<equiv> (if filtered s \<and> 0 \<le> idx_cutoff s then nat (idx_cutoff s) else length wl - 1)"
  shows "j < length wl"
    and "(if filtered s then wv_cutoff s else wv_min s) = wl ! j"
    and "wv_max s = wl ! 0"
    and "kept s \<le> Suc j"
    and "kept s = 0 \<or> kept s = Suc j"
proof -
  have ne: "wl \<noteq> []" using wf by (simp add: cd_wf_def wl_def values_of_def)
  have n: "length (the_wavelength_raw s) = length wl" by (simp add: wl_def values_of_def)
  have rg: "- 1 \<le> idx_cutoff s" "idx_cutoff s < int (length wl)"
    using wf by (simp_all add: cd_wf_def n)
  have mn: "iloc_at (- 1) wl = Inr (wv_min s)" and mx: "iloc_at 0 wl = Inr (wv_max s)"
    and ct: "iloc_at (idx_cutoff s) wl = Inr (wv_cutoff s)"
    using wf by (simp_all add: cd_wf_def wl_def)
  show "j < length wl" using ne rg by (auto simp: j_def)
  show "wv_max s = wl ! 0" using mx ne by (simp add: iloc_at_def)
  have last: "wv_min s = wl ! (length wl - 1)" using mn iloc_at_last [OF ne] by simp
  show "(if filtered s then wv_cutoff s else wv_min s) = wl ! j"
  proof (cases "filtered s \<and> 0 \<le> idx_cutoff s")
    case True
    then show ?thesis using ct rg iloc_at_nat [of "idx_cutoff s" wl] by (simp add: j_def)
  next
    case False
    show ?thesis
    proof (cases "filtered s")
      case True
      with False rg have "idx_cutoff s = - 1" by simp
      then have "wv_cutoff s = wv_min s" using ct mn by simp
      then show ?thesis using False True last by (simp add: j_def)
    next
      case False
      then show ?thesis using last by (simp add: j_def)
    qed
  qed
  show "kept s \<le> Suc j" using ne rg by (auto simp: kept_def j_def n)
  show "kept s = 0 \<or> kept s = Suc j" using ne rg by (auto simp: kept_def j_def n)
qed

section \<open>Baseline subtraction\<close>


lemma cd_wf_init:
  assumes "cd_spectra_init E p ht_max ab = Inr s"
  shows "cd_wf s"
proof -
  from assms obtain wl cd hts where
    len: "length cd = length wl" "length hts = length wl" and ne: "wl \<noteq> []"
    and st3: "3 \<le> length (store s)"
    and st: "store s ! 0 = mk_series wl" "store s ! Suc 0 = mk_series cd"
    and refs: "wavelength_raw s = 0" "wavelength s = 0" "ellipticity_raw s = Suc 0"
      "ellipticity s = Suc 0"
    and fl: "\<not> filtered s"
    and i: "idx_cutoff s = position_cutoff ht_max wl hts - 1"
    and b: "iloc_at (- 1) wl = Inr (wv_min s)" "iloc_at 0 wl = Inr (wv_max s)"
      "iloc_at (idx_cutoff s) wl = Inr (wv_cutoff s)"
    by (rule cd_spectra_init_shape)
  from position_cutoff_range [OF len(2), of ht_max]
  have rg: "- 1 \<le> idx_cutoff s" "idx_cutoff s < int (length wl)" by (simp_all add: i)
  have raw: "the_wavelength_raw s = mk_series wl" "the_wavelength s = mk_series wl"
    "the_ellipticity s = mk_series cd"
    by (simp_all add: the_wavelength_raw_def the_wavelength_def the_ellipticity_def deref_def
        st refs)
  have mne: "mk_series wl \<noteq> []" using ne by (metis length_mk_series length_0_conv)
  have sne: "store s \<noteq> []" "0 < length (store s)" "Suc 0 < length (store s)"
    using st3 by auto
  show ?thesis
    unfolding cd_wf_def raw kept_def
    using sne rg b fl ne mne len by (simp add: refs raw)
qed

lemma cd_wf_stdout: "cd_wf (s\<lparr>stdout := x\<rparr>) = cd_wf s"
  by (simp add: cd_wf_def kept_def the_wavelength_raw_def the_wavelength_def
      the_ellipticity_def)

lemma cd_wf_smoothed: "cd_wf (s\<lparr>smoothed := x\<rparr>) = cd_wf s"
  by (simp add: cd_wf_def kept_def the_wavelength_raw_def the_wavelength_def
      the_ellipticity_def)

lemma cd_wf_integral: "cd_wf (s\<lparr>integral := x\<rparr>) = cd_wf s"
  by (simp add: cd_wf_def kept_def the_wavelength_raw_def the_wavelength_def
      the_ellipticity_def)

lemma labels_div_series [simp]: "labels (div_series ser d) = labels ser"
  by (simp add: div_series_def labels_def)

lemma labels_take: "labels (take k ser) = take k (labels ser)"
  by (simp add: labels_def take_map)

lemma iloc_upto_nonneg: "0 \<le> b \<Longrightarrow> iloc_upto b xs = take (nat b) xs"
  by (simp add: iloc_upto_def slice_bound_def min_def)

lemma cd_wf_ht_filter:
  assumes "cd_wf s"
  shows "cd_wf (state_of (ht_filter s))"
proof (cases "filtered s")
  case True
  then show ?thesis using assms by (simp add: ht_filter_def cd_wf_stdout)
next
  case False
  define k where "k = nat (idx_cutoff s + 1)"
  have rg: "0 \<le> idx_cutoff s + 1" "k \<le> length (the_wavelength_raw s)"
    using assms by (auto simp: cd_wf_def k_def)
  have refs: "wavelength_raw s < length (store s)" "ellipticity_raw s < length (store s)"
    "wavelength s < length (store s)" "ellipticity s < length (store s)"
    using assms by (simp_all add: cd_wf_def)
  define s' where "s' = s\<lparr>store := store s @ [take k (the_ellipticity s), take k (the_wavelength s)],
      ellipticity := length (store s), wavelength := Suc (length (store s)), filtered := True\<rparr>"
  have r: "state_of (ht_filter s) = s'"
    using False rg(1) refs
    by (simp add: ht_filter_def alloc_def deref_def nth_append iloc_upto_nonneg s'_def k_def
        the_ellipticity_def the_wavelength_def)
  have raw: "the_wavelength_raw s' = the_wavelength_raw s"
    using refs by (simp add: s'_def the_wavelength_raw_def deref_def nth_append)
  have w: "the_wavelength s' = take k (the_wavelength s)"
    by (simp add: s'_def the_wavelength_def deref_def nth_append)
  have e: "the_ellipticity s' = take k (the_ellipticity s)"
    by (simp add: s'_def the_ellipticity_def deref_def nth_append)
  have kp: "kept s' = k" by (simp add: kept_def s'_def k_def)
  have kp0: "kept s = length (the_wavelength_raw s)" using False by (simp add: kept_def)
  have flds: "wavelength_raw s' = wavelength_raw s" "ellipticity_raw s' = ellipticity_raw s"
    "wv_min s' = wv_min s" "wv_max s' = wv_max s" "wv_cutoff s' = wv_cutoff s"
    "idx_cutoff s' = idx_cutoff s" "corrected s' = corrected s"
    "length (store s') = Suc (Suc (length (store s)))"
    "wavelength s' = Suc (length (store s))" "ellipticity s' = length (store s)"
    by (simp_all add: s'_def)
  have unc: "\<not> corrected s \<Longrightarrow> the_wavelength s' = take k (the_wavelength_raw s)
      \<and> labels (the_ellipticity s') = [0..<k]"
    using assms rg(2) by (simp add: cd_wf_def w e kp0 labels_take min_def)
  show ?thesis
    unfolding r using assms unc refs
    by (simp add: cd_wf_def raw kp flds)
qed

lemma cd_wf_mre:
  assumes "cd_wf s"
  shows "cd_wf (state_of (mre c n l s))"
proof -
  have refs: "wavelength_raw s < length (store s)" "ellipticity_raw s < length (store s)"
    "wavelength s < length (store s)" "ellipticity s < length (store s)"
    using assms by (simp_all add: cd_wf_def)
  define s' where "s' = s\<lparr>store := store s @ [div_series (the_ellipticity s) (10 * c * n * l)],
      ellipticity := length (store s)\<rparr>"
  have r: "state_of (mre c n l s) = s'"
    by (simp add: mre_def alloc_def s'_def the_ellipticity_def)
  have raw: "the_wavelength_raw s' = the_wavelength_raw s" "the_wavelength s' = the_wavelength s"
    using refs by (simp_all add: s'_def the_wavelength_raw_def the_wavelength_def deref_def nth_append)
  have e: "labels (the_ellipticity s') = labels (the_ellipticity s)"
    by (simp add: s'_def the_ellipticity_def deref_def nth_append)
  have kp: "kept s' = kept s" by (simp add: kept_def raw) (simp add: s'_def)
  have flds: "wavelength_raw s' = wavelength_raw s" "ellipticity_raw s' = ellipticity_raw s"
    "wv_min s' = wv_min s" "wv_max s' = wv_max s" "wv_cutoff s' = wv_cutoff s"
    "idx_cutoff s' = idx_cutoff s" "corrected s' = corrected s"
    "length (store s') = Suc (length (store s))"
    "wavelength s' = wavelength s" "ellipticity s' = length (store s)"
    by (simp_all add: s'_def)
  show ?thesis
    unfolding r using assms refs by (simp add: cd_wf_def raw e kp flds)
qed

lemma cd_wf_smooth: "cd_wf s \<Longrightarrow> cd_wf (state_of (smooth E w k s))"
  by (simp add: smooth_def cd_wf_smoothed split: option.splits)

lemma cd_wf_integrate: "cd_wf s \<Longrightarrow> cd_wf (state_of (integrate lo hi s))"
  by (simp add: integrate_def cd_wf_integral split: sum.splits)

lemma cd_wf_baseline:
  assumes "cd_wf s"
  shows "cd_wf (state_of (baseline E bp s))"
proof (cases "baseline E bp s")
  case (Raises e t)
  then have "t = s"
    by (auto simp: baseline_def Let_def alloc_def split: if_splits option.splits prod.splits)
  with Raises assms show ?thesis by simp
next
  case (Returns t)
  show ?thesis
  proof (cases "corrected s")
    case True
    with Returns assms show ?thesis by (auto simp: baseline_def cd_wf_stdout)
  next
    case False
    have refs: "wavelength_raw s < length (store s)" "ellipticity_raw s < length (store s)"
      using assms by (simp_all add: cd_wf_def)
    from Returns False obtain x y b where
      t: "t = s\<lparr>store := store s @ [x, y], blank := Some b, wavelength := length (store s),
              ellipticity := Suc (length (store s)), corrected := True\<rparr>"
      by (auto simp: baseline_def Let_def alloc_def split: if_splits option.splits prod.splits)
    have raw: "the_wavelength_raw t = the_wavelength_raw s"
      using refs by (simp add: t the_wavelength_raw_def deref_def nth_append)
    show ?thesis
      unfolding Returns state_of.simps using assms refs
      by (simp add: cd_wf_def raw) (simp add: t)
  qed
qed

lemma cd_wf_apply: "cd_wf s \<Longrightarrow> cd_wf (state_of (cd_apply E x s))"
  by (cases x)
    (simp_all add: cd_wf_ht_filter cd_wf_baseline cd_wf_smooth cd_wf_mre cd_wf_integrate)

lemma cd_wf_run: "cd_wf s \<Longrightarrow> cd_wf (cd_run E xs s)"
  by (induction xs arbitrary: s) (simp_all add: cd_wf_apply)

lemma ht_filter_sample: "ht_filter sample_cd = Returns sample_filtered"
  by (simp add: ht_filter_def sample_cd_def sample_filtered_def alloc_def deref_def
      iloc_upto_def slice_bound_def)

lemma cd_wf_sample: "cd_wf sample_cd"
  using cd_wf_init [OF init_sample] .

lemma cd_wf_sample_filtered: "cd_wf sample_filtered"
  using cd_wf_ht_filter [OF cd_wf_sample] by (simp add: ht_filter_sample)

lemma scan_baseline_sample: "scan_baseline 0 sample_rows (None, None) = (Some 2, Some 5)"
  by (simp add: sample_rows_def)

lemma descending_sample: "descending [Some 250, Some 249, Some 248]"
  by (simp add: descending_def)


lemma sample_cd_fields:
  "corrected sample_cd = False" "filtered sample_cd = False"
  "cols sample_cd = [''Wavelength [nm]'', ''CD [mdeg]'', ''HT [V]'']"
  "wv_min sample_cd = Some 248" "wv_max sample_cd = Some 250"
  "ellipticity sample_cd = 1" "wavelength sample_cd = 0" "stdout sample_cd = []"
  "store sample_cd = [[(0, Some 250), (1, Some 249), (2, Some 248)],
               [(0, Some 1), (1, Some 2), (2, Some 3)],
               [(0, Some 300), (1, Some 700), (2, Some 800)]]"
  by (simp_all add: sample_cd_def)

lemma blank_columns:
  "column [''Wavelength [nm]'', ''CD [mdeg]'', ''HT [V]''] blank_table ''Wavelength [nm]''
     = [Some 250, Some 249, Some 248]"
  "column [''Wavelength [nm]'', ''CD [mdeg]'', ''HT [V]''] blank_table ''CD [mdeg]''
     = [Some (1/2), Some (1/2), Some (1/2)]"
  by (simp_all add: column_def blank_table_def cell_def)

lemma mk_series_3: "mk_series [a, b, c] = [(0, a), (1, b), (2, c)]"
  by (simp add: mk_series_def upt_rec)

lemma blank_mask_sample:
  "blank_mask (Some 248) (Some 250) [Some 250, Some 249, Some 248] = [True, True, True]"
  by (simp add: blank_mask_def)

lemma select_rows_all: "select_rows [True, True, True] [a, b, c] = [a, b, c]"
  by (simp add: select_rows_def)

lemma sub_series_3:
  "sub_series [(i, Some a), (j, Some b), (k, Some c)] [(i, Some x), (j, Some y), (k, Some z)]
   = [(i, Some (a - x)), (j, Some (b - y)), (k, Some (c - z))]"
  by (simp add: sub_series_def labels_def)

lemma blank_files:
  "csv_reader sample_env ''blank.csv'' = Some sample_rows"
  "read_data sample_env ''blank.csv'' cs h n = Some blank_table"
  by (simp_all add: sample_env_def)

lemma baseline_sample:
  "baseline sample_env ''blank.csv'' sample_cd
   = Returns (sample_cd\<lparr>store := store sample_cd
                 @ [[(0, Some 250), (1, Some 249), (2, Some 248)],
                    [(0, Some (1/2)), (1, Some (3/2)), (2, Some (5/2))]],
               blank := Some blank_table, wavelength := 3, ellipticity := 4,
               corrected := True\<rparr>)"
  unfolding baseline_def
  by (simp add: sample_cd_fields blank_files scan_baseline_sample blank_columns mk_series_3
      blank_mask_sample select_rows_all alloc_def deref_def sub_series_3 Let_def
      eval_nat_numeral)

section \<open>Guarded operations\<close>

text \<open>
  C2. A second \<open>ht_filter()\<close> changes nothing but the output, to which it adds its
  diagnostic line, so that the record is as after the first call; and \<open>baseline()\<close> on
  a record whose \<open>corrected\<close> flag is set (in particular on the record an earlier
  \<open>baseline()\<close> returned) reads no file, adds its diagnostic line to the output and
  leaves every attribute as it was.
\<close>

theorem guarded_operations_idempotent:
  "(\<exists>s1. ht_filter s = Returns s1
        \<and> ht_filter s1
            = Returns (s1\<lparr>stdout := stdout s1
                          @ [''Your data has already been filtered using HT threshold'']\<rparr>))
   \<and> (corrected s \<longrightarrow>
         baseline E bp s
         = Returns (s\<lparr>stdout := stdout s @ [''Baseline is already corrected'']\<rparr>))
   \<and> (\<forall>s1. baseline E bp s = Returns s1 \<longrightarrow>
         baseline E bp' s1
         = Returns (s1\<lparr>stdout := stdout s1 @ [''Baseline is already corrected'']\<rparr>))"
proof (intro conjI allI impI)
  show "\<exists>s1. ht_filter s = Returns s1
        \<and> ht_filter s1
            = Returns (s1\<lparr>stdout := stdout s1
                          @ [''Your data has already been filtered using HT threshold'']\<rparr>)"
    by (cases "filtered s") (simp_all add: ht_filter_def Let_def alloc_def)
next
  assume "corrected s"
  then show "baseline E bp s
         = Returns (s\<lparr>stdout := stdout s @ [''Baseline is already corrected'']\<rparr>)"
    by (simp add: baseline_def)
next
  fix s1
  assume r: "baseline E bp s = Returns s1"
  have "corrected s1"
  proof (cases "corrected s")
    case True
    with r show ?thesis by (auto simp: baseline_def)
  next
    case False
    with r show ?thesis
      by (auto simp: baseline_def Let_def alloc_def split: option.splits prod.splits)
  qed
  then show "baseline E bp' s1
         = Returns (s1\<lparr>stdout := stdout s1 @ [''Baseline is already corrected'']\<rparr>)"
    by (simp add: baseline_def)
qed

theorem guarded_operations_idempotent_witness:
  "ht_filter sample_cd = Returns sample_filtered
   \<and> ht_filter sample_filtered
       = Returns (sample_filtered\<lparr>stdout :=
                    [''Your data has already been filtered using HT threshold'']\<rparr>)
   \<and> (\<exists>s1. baseline sample_env ''blank.csv'' sample_cd = Returns s1 \<and> corrected s1
         \<and> stdout s1 = []
         \<and> baseline sample_env ''blank.csv'' s1
            = Returns (s1\<lparr>stdout := [''Baseline is already corrected'']\<rparr>))"
proof -
  note t = guarded_operations_idempotent
    [of sample_cd sample_env "''blank.csv''" "''blank.csv''"]
  from t have a: "ht_filter sample_filtered
       = Returns (sample_filtered\<lparr>stdout := stdout sample_filtered
                    @ [''Your data has already been filtered using HT threshold'']\<rparr>)"
    by (simp add: ht_filter_sample)
  have o: "stdout sample_filtered = []" by (simp add: sample_filtered_def sample_cd_def)
  define s1 where "s1 = sample_cd\<lparr>store := store sample_cd
                 @ [[(0, Some 250), (1, Some 249), (2, Some 248)],
                    [(0, Some (1/2)), (1, Some (3/2)), (2, Some (5/2))]],
               blank := Some blank_table, wavelength := 3, ellipticity := 4,
               corrected := True\<rparr>"
  have b: "baseline sample_env ''blank.csv'' sample_cd = Returns s1"
    by (simp add: baseline_sample s1_def)
  have c: "corrected s1" "stdout s1 = []" by (simp_all add: s1_def sample_cd_def)
  from t b have "baseline sample_env ''blank.csv'' s1
            = Returns (s1\<lparr>stdout := stdout s1 @ [''Baseline is already corrected'']\<rparr>)"
    by blast
  with a o b c ht_filter_sample show ?thesis by (auto simp del: One_nat_def)
qed

lemma descending_distinct:
  assumes "descending vs"
  shows "distinct vs"
proof (unfold distinct_conv_nth, intro allI impI)
  fix i j
  assume i: "i < length vs" and j: "j < length vs" and ne: "i \<noteq> j"
  from assms i j obtain x y where x: "vs ! i = Some x" and y: "vs ! j = Some y"
    by (meson descending_nth)
  from ne consider "i < j" | "j < i" by linarith
  then show "vs ! i \<noteq> vs ! j"
  proof cases
    case 1
    from descending_less [OF assms 1 j x y] show ?thesis by (simp add: x y)
  next
    case 2
    from descending_less [OF assms 2 i y x] show ?thesis by (simp add: x y)
  qed
qed

lemma filter_eq_nth:
  "distinct (map f xs) \<Longrightarrow> i < length xs \<Longrightarrow> filter (\<lambda>p. f p = f (xs ! i)) xs = [xs ! i]"
proof (induction xs arbitrary: i)
  case Nil
  then show ?case by simp
next
  case (Cons x xs)
  show ?case
  proof (cases i)
    case 0
    have "filter (\<lambda>p. f p = f x) xs = []"
      using Cons.prems(1) by (force simp: filter_empty_conv image_iff)
    then show ?thesis using 0 by simp
  next
    case (Suc k)
    then have k: "k < length xs" using Cons.prems(2) by simp
    have "f x \<noteq> f (xs ! k)" using Cons.prems(1) k by auto
    then show ?thesis using Suc Cons.IH [of k] Cons.prems(1) k by simp
  qed
qed

lemma index0_eq_positional:
  assumes "labels wl = [0..<length wl]" "descending (values_of wl)"
    "i < length wl" "snd (wl ! i) = Some x"
  shows "index0_eq wl x = Inr i"
proof -
  have "distinct (map snd wl)" using assms(2) by (simp add: values_of_def descending_distinct)
  from filter_eq_nth [OF this assms(3)]
  have "filter (\<lambda>p. snd p = Some x) wl = [wl ! i]" by (simp add: assms(4))
  moreover have "fst (wl ! i) = i"
    using assms(1,3) by (metis labels_def nth_map nth_upt add_0)
  ultimately show ?thesis by (simp add: index0_eq_def)
qed

lemma index0_eq_absent:
  "Some x \<notin> set (values_of wl) \<Longrightarrow> index0_eq wl x = Inl IndexError"
proof -
  assume "Some x \<notin> set (values_of wl)"
  then have "filter (\<lambda>p. snd p = Some x) wl = []"
    by (force simp: filter_empty_conv values_of_def image_iff)
  then show ?thesis by (simp add: index0_eq_def)
qed

lemma iloc_slice_nat:
  "b \<le> length xs \<Longrightarrow> iloc_slice (int a) (int b) xs = drop a (take b xs)"
  by (simp add: iloc_slice_def slice_bound_def min_def)

lemma nansum_slice:
  assumes "b \<le> length sig"
  shows "nansum (values_of (drop a (take b sig))) = (\<Sum>i = a..<b. nan0 (snd (sig ! i)))"
proof -
  have "drop a (take b sig) = map ((!) sig) [a..<b]"
    using assms by (auto intro!: nth_equalityI)
  then have "nansum (values_of (drop a (take b sig)))
             = sum_list (map (\<lambda>i. nan0 (snd (sig ! i))) [a..<b])"
    by (simp add: nansum_def values_of_def comp_def)
  also have "\<dots> = (\<Sum>i = a..<b. nan0 (snd (sig ! i)))"
    by (simp add: interv_sum_list_conv_sum_set_nat)
  finally show ?thesis .
qed

lemma riemann_positional:
  assumes pos: "labels wl = [0..<length wl]"
    and len: "length sig = length wl"
    and desc: "descending (values_of wl)"
    and lu: "lower < upper"
    and iu: "iu < length wl" "snd (wl ! iu) = Some upper"
    and il: "il < length wl" "snd (wl ! il) = Some lower"
  shows "iu < il"
    and "riemann d wl sig lower upper = Inr (d * (\<Sum>i = iu..il. nan0 (snd (sig ! i))))"
proof -
  have v: "values_of wl ! iu = Some upper" "values_of wl ! il = Some lower"
    using iu il by (simp_all add: values_of_def)
  have l: "iu < length (values_of wl)" "il < length (values_of wl)"
    using iu il by (simp_all add: values_of_def)
  show lt: "iu < il"
  proof (rule ccontr)
    assume "\<not> iu < il"
    then consider "il = iu" | "il < iu" by linarith
    then show False
    proof cases
      case 1
      with v lu show False by simp
    next
      case 2
      from descending_less [OF desc 2 l(1) v(2) v(1)] lu show False by simp
    qed
  qed
  have a: "index0_eq wl upper = Inr iu" by (rule index0_eq_positional [OF pos desc iu])
  have b: "index0_eq wl lower = Inr il" by (rule index0_eq_positional [OF pos desc il])
  have s: "Suc il \<le> length sig" using il len by simp
  have "iloc_slice (int iu) (int il + 1) sig = drop iu (take (Suc il) sig)"
    using iloc_slice_nat [OF s, of iu] by (simp add: add.commute)
  then have "nansum (values_of (iloc_slice (int iu) (int il + 1) sig))
             = (\<Sum>i = iu..<Suc il. nan0 (snd (sig ! i)))"
    using nansum_slice [OF s, of iu] by simp
  also have "\<dots> = (\<Sum>i = iu..il. nan0 (snd (sig ! i)))"
    by (simp add: atLeastLessThanSuc_atLeastAtMost)
  finally show "riemann d wl sig lower upper = Inr (d * (\<Sum>i = iu..il. nan0 (snd (sig ! i))))"
    by (simp add: riemann_def a b)
qed

lemma sections_abs:
  "read_sections sample_env ''abs.csv'' cs =
     Inr \<lparr>sec_title = Some ''sample'', sec_info = [(''TITLE'', ''sample'')],
          sec_data = abs_table, sec_metadata = [(''Data pitch'', ''1 nm'')]\<rparr>"
  by (simp add: read_sections_def sample_env_def scan_sample)

lemma name_abs: "name_of_path ''abs.csv'' = ''abs''"
  by (simp add: name_of_path_def basename_def iloc_upto_def slice_bound_def)

lemma init_sample_abs: "abs_spectra_init sample_env ''abs.csv'' = Inr sample_abs"
  by (simp add: abs_spectra_init_def sections_abs pitch_sample name_abs abs_cols_def
      abs_table_def column_def cell_def iloc_at_def mk_series_def sample_abs_def upt_rec
      Let_def)

lemma sample_series:
  "the_wavelength sample_cd = [(0, Some 250), (1, Some 249), (2, Some 248)]"
  "the_ellipticity sample_cd = [(0, Some 1), (1, Some 2), (2, Some 3)]"
  "the_abs_wavelength sample_abs = [(0, Some 250), (1, Some 249), (2, Some 248)]"
  "the_abs sample_abs = [(0, Some (1/2)), (1, Some (1/2)), (2, Some (1/2))]"
  by (simp_all add: the_wavelength_def the_ellipticity_def the_abs_wavelength_def the_abs_def
      deref_def sample_cd_def sample_abs_def)

text \<open>
  Until a baseline is subtracted, the domain of a record carries its positions as labels
  and the signal has the length of the domain.
\<close>

lemma cd_wf_positional:
  assumes "cd_wf s" "\<not> corrected s"
  shows "labels (the_wavelength s) = [0..<length (the_wavelength s)]"
    and "length (the_ellipticity s) = length (the_wavelength s)"
proof -
  have k: "kept s \<le> length (the_wavelength_raw s)"
    using assms(1) by (auto simp: cd_wf_def kept_def)
  have w: "the_wavelength s = take (kept s) (the_wavelength_raw s)"
    and e: "labels (the_ellipticity s) = [0..<kept s]"
    and r: "labels (the_wavelength_raw s) = [0..<length (the_wavelength_raw s)]"
    using assms by (simp_all add: cd_wf_def)
  have lw: "length (the_wavelength s) = kept s" using k by (simp add: w)
  show "labels (the_wavelength s) = [0..<length (the_wavelength s)]"
    using k by (simp add: lw) (simp add: w labels_take r min_def)
  show "length (the_ellipticity s) = length (the_wavelength s)"
    using labels_length [OF e] by (simp add: lw)
qed

section \<open>Integration\<close>



lemma index0_eq_cases: "index0_eq wl x = Inl IndexError \<or> (\<exists>i. index0_eq wl x = Inr i)"
  by (simp add: index0_eq_def split: list.splits)

lemma riemann_absent:
  assumes "Some lower \<notin> set (values_of wl) \<or> Some upper \<notin> set (values_of wl)"
  shows "riemann d wl sig lower upper = Inl IndexError"
proof (cases "Some upper \<in> set (values_of wl)")
  case False
  then show ?thesis by (simp add: riemann_def index0_eq_absent)
next
  case True
  with assms have "index0_eq wl lower = Inl IndexError" by (simp add: index0_eq_absent)
  then show ?thesis
    using index0_eq_cases [of wl upper] by (auto simp: riemann_def)
qed

text \<open>
  C5, as the code has it. When \<open>lower_bound\<close> or \<open>upper_bound\<close> equals no value of the
  domain, \<open>integrate\<close> raises \<open>IndexError\<close>, the exception of reading the first label
  of an empty index; there is no nearest-neighbour fallback, and the record is left as
  it was. This holds for CD records and for absorbance records.
\<close>

theorem integrate_absent_bound:
  "(Some lower \<notin> set (values_of (the_wavelength s))
      \<or> Some upper \<notin> set (values_of (the_wavelength s))
    \<longrightarrow> integrate lower upper s = Raises IndexError s)
   \<and> (Some lower \<notin> set (values_of (the_abs_wavelength a))
      \<or> Some upper \<notin> set (values_of (the_abs_wavelength a))
    \<longrightarrow> abs_integrate lower upper a = Raises IndexError a)"
  by (auto simp: integrate_def abs_integrate_def the_wavelength_def the_abs_wavelength_def
      riemann_absent)

theorem integrate_absent_bound_witness:
  "Some (497/2) \<notin> set (values_of (the_wavelength sample_cd))
   \<and> integrate (497/2) 250 sample_cd = Raises IndexError sample_cd
   \<and> Some 251 \<notin> set (values_of (the_abs_wavelength sample_abs))
   \<and> abs_integrate 248 251 sample_abs = Raises IndexError sample_abs"
proof -
  have a: "Some (497/2) \<notin> set (values_of (the_wavelength sample_cd))"
    by (simp add: sample_series values_of_def)
  have b: "Some 251 \<notin> set (values_of (the_abs_wavelength sample_abs))"
    by (simp add: sample_series values_of_def)
  from integrate_absent_bound [of "497/2" sample_cd 250 sample_abs] a
  have c: "integrate (497/2) 250 sample_cd = Raises IndexError sample_cd" by blast
  from integrate_absent_bound [of 248 sample_cd 251 sample_abs] b
  have d: "abs_integrate 248 251 sample_abs = Raises IndexError sample_abs" by blast
  from a b c d show ?thesis by blast
qed

theorem integrate_absent_bound_counterexample:
  "Some (497/2) \<notin> set (values_of (the_wavelength sample_cd))
   \<and> integrate (497/2) 250 sample_cd \<noteq> Raises ValueNotFoundError sample_cd"
proof -
  have "index0_eq (the_wavelength sample_cd) 250 = Inr 0"
    by (simp add: sample_series index0_eq_def)
  moreover have "index0_eq (the_wavelength sample_cd) (497/2) = Inl IndexError"
    by (simp add: sample_series index0_eq_def)
  ultimately have "integrate (497/2) 250 sample_cd = Raises IndexError sample_cd"
    by (simp add: integrate_def riemann_def the_wavelength_def)
  then show ?thesis by (simp add: sample_series values_of_def)
qed

lemma scan_lines_error: "scan_lines pos rows st = Inl e \<Longrightarrow> e = IndexError"
proof (induction pos rows st rule: scan_lines.induct)
  case (1 position st)
  then show ?case by simp
next
  case (2 position line rest t start en)
  then show ?case
    by (auto simp: title_of_def split: if_splits sum.splits list.splits)
qed

lemma pair_shift:
  fixes s :: "int option"
  assumes "(s \<noteq> None \<and> (\<exists>j<length rest. Q (rest ! j)))
       \<or> (\<exists>i j. i < j \<and> j < length rest \<and> P (rest ! i) \<and> Q (rest ! j))"
  shows "(s \<noteq> None \<and> (\<exists>j<length (line # rest). Q ((line # rest) ! j)))
       \<or> (\<exists>i j. i < j \<and> j < length (line # rest) \<and> P ((line # rest) ! i)
                 \<and> Q ((line # rest) ! j))"
proof (rule disjE [OF assms])
  assume "s \<noteq> None \<and> (\<exists>j<length rest. Q (rest ! j))"
  then obtain j where "s \<noteq> None" "j < length rest" "Q (rest ! j)" by blast
  then have "s \<noteq> None \<and> Suc j < length (line # rest) \<and> Q ((line # rest) ! Suc j)"
    by simp
  then show ?thesis by blast
next
  assume "\<exists>i j. i < j \<and> j < length rest \<and> P (rest ! i) \<and> Q (rest ! j)"
  then obtain i j where "i < j" "j < length rest" "P (rest ! i)" "Q (rest ! j)" by blast
  then have "Suc i < Suc j \<and> Suc j < length (line # rest)
      \<and> P ((line # rest) ! Suc i) \<and> Q ((line # rest) ! Suc j)"
    by simp
  then show ?thesis by blast
qed

lemma pair_first:
  fixes s :: "int option"
  assumes "P line"
    and "(s \<noteq> None \<and> (\<exists>j<length rest. Q (rest ! j)))
       \<or> (\<exists>i j. i < j \<and> j < length rest \<and> P (rest ! i) \<and> Q (rest ! j))"
  shows "\<exists>i j. i < j \<and> j < length (line # rest) \<and> P ((line # rest) ! i)
                 \<and> Q ((line # rest) ! j)"
proof -
  from assms(2) have "\<exists>j<length rest. Q (rest ! j)" by auto
  then obtain j where "j < length rest" "Q (rest ! j)" by blast
  with assms(1) have "0 < Suc j \<and> Suc j < length (line # rest)
      \<and> P ((line # rest) ! 0) \<and> Q ((line # rest) ! Suc j)"
    by simp
  then show ?thesis by blast
qed

lemma scan_lines_both:
  assumes "scan_lines pos rows (t, st, en) = Inr (t', Some a, Some b)" "en = None"
  shows "(st \<noteq> None \<and> (\<exists>j<length rows. ''##### Extended Information'' \<in> set (rows ! j)))
       \<or> (\<exists>i j. i < j \<and> j < length rows \<and> ''XYDATA'' \<in> set (rows ! i)
                 \<and> ''##### Extended Information'' \<in> set (rows ! j))"
  using assms
proof (induction rows arbitrary: pos t st)
  case Nil
  then show ?case by simp
next
  case (Cons line rest)
  let ?E = "''##### Extended Information''"
  consider (title) "pos = 0"
    | (xy) "pos \<noteq> 0" "''XYDATA'' \<in> set line"
    | (ext) "pos \<noteq> 0" "''XYDATA'' \<notin> set line" "?E \<in> set line"
    | (other) "pos \<noteq> 0" "''XYDATA'' \<notin> set line" "?E \<notin> set line"
    by blast
  then show ?case
  proof cases
    case title
    with Cons.prems obtain t0 where
      "scan_lines (Suc pos) rest (Some t0, st, en) = Inr (t', Some a, Some b)"
      by (auto split: sum.splits)
    from Cons.IH [OF this Cons.prems(2)] show ?thesis by (rule pair_shift)
  next
    case xy
    with Cons.prems have
      r: "scan_lines (Suc pos) rest (t, Some (int pos + 1), en) = Inr (t', Some a, Some b)"
      by simp
    from xy(2) Cons.IH [OF r Cons.prems(2)]
    have "\<exists>i j. i < j \<and> j < length (line # rest) \<and> ''XYDATA'' \<in> set ((line # rest) ! i)
                 \<and> ?E \<in> set ((line # rest) ! j)"
      by (rule pair_first [where P = "\<lambda>l. ''XYDATA'' \<in> set l"])
    then show ?thesis by blast
  next
    case ext
    with Cons.prems have "st = Some a" by simp
    moreover have "0 < length (line # rest) \<and> ?E \<in> set ((line # rest) ! 0)"
      using ext by simp
    ultimately show ?thesis by blast
  next
    case other
    with Cons.prems have
      "scan_lines (Suc pos) rest (t, st, en) = Inr (t', Some a, Some b)" by simp
    from Cons.IH [OF this Cons.prems(2)] show ?thesis by (rule pair_shift)
  qed
qed

lemma scan_channels_error: "scan_channels pos rows st = Inl e \<Longrightarrow> e = IndexError"
proof (induction pos rows st rule: scan_channels.induct)
  case (1 position st)
  then show ?case by simp
next
  case (2 position line rest t start en)
  then show ?case
    by (auto split: if_splits sum.splits list.splits)
qed

lemma scan_channels_both:
  assumes "scan_channels pos rows (t, st, en) = Inr (t', Some a, Some b)" "en = None"
  shows "(st \<noteq> None \<and> (\<exists>j<length rows. ''Channel 2'' \<in> set (rows ! j)))
       \<or> (\<exists>i j. i < j \<and> j < length rows \<and> ''Channel 1'' \<in> set (rows ! i)
                 \<and> ''Channel 2'' \<in> set (rows ! j))"
  using assms
proof (induction rows arbitrary: pos t st)
  case Nil
  then show ?case by simp
next
  case (Cons line rest)
  from Cons.prems(1) obtain f fs where line: "line = f # fs"
    by (cases line) simp_all
  consider (title) "contains ''TITLE'' f"
    | (c1) "\<not> contains ''TITLE'' f" "''Channel 1'' \<in> set line"
    | (c2) "\<not> contains ''TITLE'' f" "''Channel 1'' \<notin> set line" "''Channel 2'' \<in> set line"
    | (other) "\<not> contains ''TITLE'' f" "''Channel 1'' \<notin> set line" "''Channel 2'' \<notin> set line"
    by blast
  then show ?case
  proof cases
    case title
    with Cons.prems line obtain t0 where
      "scan_channels (Suc pos) rest (Some t0, st, en) = Inr (t', Some a, Some b)"
      by (auto split: list.splits)
    from Cons.IH [OF this Cons.prems(2)] show ?thesis by (rule pair_shift)
  next
    case c1
    with Cons.prems line have
      r: "scan_channels (Suc pos) rest (t, Some (int pos + 1), en) = Inr (t', Some a, Some b)"
      by auto
    from c1(2) Cons.IH [OF r Cons.prems(2)]
    have "\<exists>i j. i < j \<and> j < length (line # rest) \<and> ''Channel 1'' \<in> set ((line # rest) ! i)
                 \<and> ''Channel 2'' \<in> set ((line # rest) ! j)"
      by (rule pair_first [where P = "\<lambda>l. ''Channel 1'' \<in> set l"])
    then show ?thesis by blast
  next
    case c2
    with Cons.prems line have "st = Some a" by auto
    moreover have "0 < length (line # rest) \<and> ''Channel 2'' \<in> set ((line # rest) ! 0)"
      using c2 by simp
    ultimately show ?thesis by blast
  next
    case other
    with Cons.prems line have
      "scan_channels (Suc pos) rest (t, st, en) = Inr (t', Some a, Some b)" by auto
    from Cons.IH [OF this Cons.prems(2)] show ?thesis by (rule pair_shift)
  qed
qed

lemma read_sections_no_pair:
  assumes "csv_reader E p = Some rows"
    and "\<not> (\<exists>i j. i < j \<and> j < length rows \<and> ''XYDATA'' \<in> set (rows ! i)
                 \<and> ''##### Extended Information'' \<in> set (rows ! j))"
  shows "\<exists>e. read_sections E p cs = Inl e \<and> e \<in> {IndexError, UnboundLocalError, ExternalError}"
proof (cases "scan_lines 0 rows (None, None, None)")
  case (Inl e)
  then have "e = IndexError" by (rule scan_lines_error)
  with Inl assms(1) show ?thesis by (simp add: read_sections_def)
next
  case (Inr r)
  obtain t st en where r: "r = (t, st, en)" by (cases r)
  show ?thesis
  proof (cases st)
    case None
    with Inr r assms(1) show ?thesis by (simp add: read_sections_def)
  next
    case (Some a)
    show ?thesis
    proof (cases en)
      case None
      with Inr r Some assms(1) show ?thesis
        by (simp add: read_sections_def split: option.splits)
    next
      case (Some b)
      from Inr r \<open>st = Some a\<close> Some
      have "scan_lines 0 rows (None, None, None) = Inr (t, Some a, Some b)" by simp
      from scan_lines_both [OF this] assms(2) show ?thesis by simp
    qed
  qed
qed

lemma melting_init_no_pair:
  assumes "csv_reader E p = Some rows"
    and "\<not> (\<exists>i j. i < j \<and> j < length rows \<and> ''Channel 1'' \<in> set (rows ! i)
                 \<and> ''Channel 2'' \<in> set (rows ! j))"
  shows "\<exists>e. cd_melting_spectra_init E p ht_max = Inl e \<and> e \<in> {IndexError, UnboundLocalError}"
proof (cases "scan_channels 0 rows (None, None, None)")
  case (Inl e)
  then have "e = IndexError" by (rule scan_channels_error)
  with Inl assms(1) show ?thesis by (simp add: cd_melting_spectra_init_def)
next
  case (Inr r)
  obtain t st en where r: "r = (t, st, en)" by (cases r)
  show ?thesis
  proof (cases st)
    case None
    with Inr r assms(1) show ?thesis by (simp add: cd_melting_spectra_init_def)
  next
    case (Some a)
    show ?thesis
    proof (cases en)
      case None
      with Inr r Some assms(1) show ?thesis by (simp add: cd_melting_spectra_init_def)
    next
      case (Some b)
      from Inr r \<open>st = Some a\<close> Some
      have "scan_channels 0 rows (None, None, None) = Inr (t, Some a, Some b)" by simp
      from scan_channels_both [OF this] assms(2) show ?thesis by simp
    qed
  qed
qed

lemma nodata_rows:
  "csv_reader sample_env ''nodata.csv'' = Some [[''TITLE;empty''], [''250;1;300'']]"
  by (simp add: sample_env_def)

lemma nodata_no_pair:
  "\<not> (\<exists>i j. i < j \<and> j < length [[''TITLE;empty''], [''250;1;300'']]
         \<and> P ([[''TITLE;empty''], [''250;1;300'']] ! i)
         \<and> x \<in> set ([[''TITLE;empty''], [''250;1;300''] :: string list] ! j)) \<longleftrightarrow>
   x \<noteq> ''250;1;300'' \<or> \<not> P [''TITLE;empty'']"
  by (auto simp: less_Suc_eq numeral_2_eq_2)

section \<open>Files without a data section\<close>

text \<open>
  C6, as the code has it. When the rows of an input file hold no data-start sentinel
  (\<open>XYDATA\<close>, or \<open>Channel 1\<close> for the grid format) that is followed by the end sentinel
  (\<open>##### Extended Information\<close>, or \<open>Channel 2\<close>), construction raises and returns no
  record, so that an empty data section is never produced. The exception is
  \<open>UnboundLocalError\<close>, from reading \<open>start\<close> or \<open>end\<close> which the loop left unbound,
  or \<open>IndexError\<close> from a title line without a semicolon or from an empty row, or, for
  the single-spectrum classes, an exception of the table reader on the info section.
\<close>

theorem missing_sentinel_fails:
  assumes "csv_reader E p = Some rows"
  shows "(\<not> (\<exists>i j. i < j \<and> j < length rows \<and> ''XYDATA'' \<in> set (rows ! i)
                 \<and> ''##### Extended Information'' \<in> set (rows ! j))
          \<longrightarrow> (\<exists>e. cd_spectra_init E p ht_max ab = Inl e
                    \<and> e \<in> {IndexError, UnboundLocalError, ExternalError})
              \<and> (\<exists>e. abs_spectra_init E p = Inl e
                    \<and> e \<in> {IndexError, UnboundLocalError, ExternalError}))
       \<and> (\<not> (\<exists>i j. i < j \<and> j < length rows \<and> ''Channel 1'' \<in> set (rows ! i)
                 \<and> ''Channel 2'' \<in> set (rows ! j))
          \<longrightarrow> (\<exists>e. cd_melting_spectra_init E p ht_max = Inl e
                    \<and> e \<in> {IndexError, UnboundLocalError}))"
proof (intro conjI impI)
  assume h: "\<not> (\<exists>i j. i < j \<and> j < length rows \<and> ''XYDATA'' \<in> set (rows ! i)
                 \<and> ''##### Extended Information'' \<in> set (rows ! j))"
  from read_sections_no_pair [OF assms h, of "cd_cols ab"]
  show "\<exists>e. cd_spectra_init E p ht_max ab = Inl e
            \<and> e \<in> {IndexError, UnboundLocalError, ExternalError}"
    by (auto simp: cd_spectra_init_def)
  from read_sections_no_pair [OF assms h, of abs_cols]
  show "\<exists>e. abs_spectra_init E p = Inl e
            \<and> e \<in> {IndexError, UnboundLocalError, ExternalError}"
    by (auto simp: abs_spectra_init_def)
next
  assume "\<not> (\<exists>i j. i < j \<and> j < length rows \<and> ''Channel 1'' \<in> set (rows ! i)
                 \<and> ''Channel 2'' \<in> set (rows ! j))"
  from melting_init_no_pair [OF assms this]
  show "\<exists>e. cd_melting_spectra_init E p ht_max = Inl e \<and> e \<in> {IndexError, UnboundLocalError}" .
qed

theorem missing_sentinel_fails_witness:
  "csv_reader sample_env ''nodata.csv'' = Some [[''TITLE;empty''], [''250;1;300'']]
   \<and> ''XYDATA'' \<notin> set [''TITLE;empty''] \<and> ''XYDATA'' \<notin> set [''250;1;300'']
   \<and> ''Channel 1'' \<notin> set [''TITLE;empty''] \<and> ''Channel 1'' \<notin> set [''250;1;300'']
   \<and> (\<exists>e. cd_spectra_init sample_env ''nodata.csv'' 600 False = Inl e
          \<and> e \<in> {IndexError, UnboundLocalError, ExternalError})
   \<and> (\<exists>e. abs_spectra_init sample_env ''nodata.csv'' = Inl e
          \<and> e \<in> {IndexError, UnboundLocalError, ExternalError})
   \<and> (\<exists>e. cd_melting_spectra_init sample_env ''nodata.csv'' 600 = Inl e
          \<and> e \<in> {IndexError, UnboundLocalError})"
proof -
  note t = missing_sentinel_fails [OF nodata_rows, of 600 False]
  have a: "\<not> (\<exists>i j. i < j \<and> j < length [[''TITLE;empty''], [''250;1;300'']]
         \<and> ''XYDATA'' \<in> set ([[''TITLE;empty''], [''250;1;300'']] ! i)
         \<and> ''##### Extended Information'' \<in> set ([[''TITLE;empty''], [''250;1;300'']] ! j))"
    by (subst nodata_no_pair [where P = "\<lambda>l. ''XYDATA'' \<in> set l"]) simp
  have b: "\<not> (\<exists>i j. i < j \<and> j < length [[''TITLE;empty''], [''250;1;300'']]
         \<and> ''Channel 1'' \<in> set ([[''TITLE;empty''], [''250;1;300'']] ! i)
         \<and> ''Channel 2'' \<in> set ([[''TITLE;empty''], [''250;1;300'']] ! j))"
    by (subst nodata_no_pair [where P = "\<lambda>l. ''Channel 1'' \<in> set l"]) simp
  from t a b nodata_rows show ?thesis by simp
qed

theorem missing_sentinel_fails_counterexample:
  "csv_reader sample_env ''nodata.csv'' = Some [[''TITLE;empty''], [''250;1;300'']]
   \<and> cd_spectra_init sample_env ''nodata.csv'' 600 False = Inl UnboundLocalError
   \<and> cd_spectra_init sample_env ''nodata.csv'' 600 False \<noteq> Inl MalformedFormatError"
proof -
  have "scan_lines 0 [[''TITLE;empty''], [''250;1;300'']] (None, None, None)
        = Inr (Some ''empty'', None, None)"
    by (simp add: title_of_def)
  then have "read_sections sample_env ''nodata.csv'' (cd_cols False) = Inl UnboundLocalError"
    by (simp add: read_sections_def nodata_rows)
  then have "cd_spectra_init sample_env ''nodata.csv'' 600 False = Inl UnboundLocalError"
    by (simp add: cd_spectra_init_def)
  with nodata_rows show ?thesis by simp
qed

lemma scan_melt:
  "scan_channels 0 melt_rows (None, None, None) = Inr (Some ''melt'', Some 2, Some 5)"
  by (simp add: melt_rows_def)

lemma melt_env:
  "csv_reader sample_env ''melt.csv'' = Some melt_rows"
  "read_grid sample_env ''melt.csv'' h (Some k) = Some melt_cd_grid"
  "read_grid sample_env ''melt.csv'' h None = Some melt_ht_grid"
  "read_info sample_env ''melt.csv'' n = Some [(''DELTAX'', ''-1'')]"
  by (simp_all add: sample_env_def)

lemma deltax_sample: "deltax sample_env [(''DELTAX'', ''-1'')] = Inr 1"
  by (simp add: deltax_def sample_env_def str_replace_def)

lemma name_melt: "name_of_path ''melt.csv'' = ''melt''"
  by (simp add: name_of_path_def basename_def iloc_upto_def slice_bound_def)

lemma melt_cd_sample:
  "melt (map (str_replace '','' ''.'') (g_columns melt_cd_grid)) (g_index melt_cd_grid)
     (g_cells melt_cd_grid)
   = [(Some 250, ''20'', Some 1), (Some 249, ''20'', Some 2),
      (Some 250, ''30'', Some 3), (Some 249, ''30'', Some 4)]"
  by (simp add: melt_def melt_cd_grid_def str_replace_def enumerate_eq_zip cell_def upt_rec)

lemma melt_ht_sample:
  "melt (map (str_replace '','' ''.'') (g_columns melt_ht_grid)) (g_index melt_ht_grid)
     (g_cells melt_ht_grid)
   = [(Some 250, ''20'', Some 300), (Some 249, ''20'', Some 700),
      (Some 250, ''30'', Some 300), (Some 249, ''30'', Some 400)]"
  by (simp add: melt_def melt_ht_grid_def str_replace_def enumerate_eq_zip cell_def upt_rec)

lemma temps_sample:
  "map (str_replace '','' ''.'') (g_columns melt_cd_grid) = [''20'', ''30'']"
  "g_index melt_cd_grid = [Some 250, Some 249]"
  by (simp_all add: melt_cd_grid_def str_replace_def)

lemma init_sample_melt: "cd_melting_spectra_init sample_env ''melt.csv'' 600 = Inr sample_melt"
  unfolding cd_melting_spectra_init_def
  by (simp add: melt_env scan_melt deltax_sample name_melt Let_def melt_cd_sample
      melt_ht_sample merge_rows_def filtered_value_def)
    (simp add: temps_sample sample_melt_def)

lemma values_div_series:
  "values_of (div_series ser d) = map (\<lambda>v. val_div v d) (values_of ser)"
  by (simp add: div_series_def values_of_def)

section \<open>Mean residue ellipticity\<close>

text \<open>
  C7, as the code has it. \<open>mre(concentration, aa_number, pathlength)\<close> checks nothing
  and raises nothing, whatever the factors are. Whenever the divisor
  \<open>10 * concentration * aa_number * pathlength\<close> is not zero, every sample of the
  current signal is divided by it: \<open>cd_spectra.mre\<close> rebinds ellipticity to the
  quotients, with the labels unchanged, and \<open>cd_melting_spectra.mre\<close> stores the
  quotients of the filtered column as the mre column and sets \<open>mre_transformation\<close>.
\<close>

theorem mre_divides_without_validation:
  "(\<exists>s'. mre concentration aa_number pathlength s = Returns s'
         \<and> labels (the_ellipticity s') = labels (the_ellipticity s)
         \<and> (10 * concentration * aa_number * pathlength \<noteq> 0 \<longrightarrow>
              values_of (the_ellipticity s')
              = map (map_option (\<lambda>x. x / (10 * concentration * aa_number * pathlength)))
                  (values_of (the_ellipticity s))))
   \<and> (\<exists>m'. melt_mre concentration aa_number pathlength m = Returns m'
         \<and> m_mre_transformation m'
         \<and> (10 * concentration * aa_number * pathlength \<noteq> 0 \<longrightarrow>
              m_cd_mre m'
              = Some (map (\<lambda>r. map_option
                                  (\<lambda>x. x / (10 * concentration * aa_number * pathlength))
                                  (r_cd_filtered r)) (m_data m))))"
proof -
  define d where "d = 10 * concentration * aa_number * pathlength"
  have q: "d \<noteq> 0 \<Longrightarrow> val_div v d = map_option (\<lambda>x. x / d) v" for v
    by (cases v) simp_all
  define s' where "s' = s\<lparr>store := store s @ [div_series (the_ellipticity s) d],
      ellipticity := length (store s)\<rparr>"
  have r: "mre concentration aa_number pathlength s = Returns s'"
    by (simp add: mre_def alloc_def s'_def d_def the_ellipticity_def)
  have e: "the_ellipticity s' = div_series (the_ellipticity s) d"
    by (simp add: s'_def the_ellipticity_def deref_def)
  have a: "\<exists>s'. mre concentration aa_number pathlength s = Returns s'
         \<and> labels (the_ellipticity s') = labels (the_ellipticity s)
         \<and> (d \<noteq> 0 \<longrightarrow> values_of (the_ellipticity s')
              = map (map_option (\<lambda>x. x / d)) (values_of (the_ellipticity s)))"
    using r e q by (auto simp: values_div_series)
  have b: "\<exists>m'. melt_mre concentration aa_number pathlength m = Returns m'
         \<and> m_mre_transformation m'
         \<and> (d \<noteq> 0 \<longrightarrow> m_cd_mre m'
              = Some (map (\<lambda>r. map_option (\<lambda>x. x / d) (r_cd_filtered r)) (m_data m)))"
    using q by (simp add: melt_mre_def d_def)
  from a b show ?thesis unfolding d_def by blast
qed

theorem mre_divides_without_validation_witness:
  "(10::real) * 1 * 1 * 1 \<noteq> 0
   \<and> (\<exists>s'. mre 1 1 1 sample_cd = Returns s'
          \<and> the_ellipticity s' = [(0, Some (1/10)), (1, Some (2/10)), (2, Some (3/10))])
   \<and> (\<exists>m'. melt_mre 1 1 1 sample_melt = Returns m' \<and> m_mre_transformation m'
          \<and> m_cd_mre m' = Some [Some (1/10), None, Some (3/10), Some (4/10)])"
proof -
  from mre_divides_without_validation [of 1 1 1 sample_cd sample_melt]
  obtain s' m' where s': "mre 1 1 1 sample_cd = Returns s'"
    "labels (the_ellipticity s') = labels (the_ellipticity sample_cd)"
    "values_of (the_ellipticity s')
       = map (map_option (\<lambda>x. x / (10 * 1 * 1 * 1))) (values_of (the_ellipticity sample_cd))"
    and m': "melt_mre 1 1 1 sample_melt = Returns m'" "m_mre_transformation m'"
    "m_cd_mre m' = Some (map (\<lambda>r. map_option (\<lambda>x. x / (10 * 1 * 1 * 1)) (r_cd_filtered r))
                          (m_data sample_melt))"
    by auto
  have l: "map fst (the_ellipticity s') = [0, 1, 2]"
    using s'(2) by (simp add: sample_series labels_def)
  have v: "map snd (the_ellipticity s') = [Some (1/10), Some (2/10), Some (3/10)]"
    using s'(3) by (simp add: sample_series values_of_def)
  have "the_ellipticity s' = zip (map fst (the_ellipticity s')) (map snd (the_ellipticity s'))"
    by (simp only: zip_map_fst_snd)
  also have "\<dots> = [(0, Some (1/10)), (1, Some (2/10)), (2, Some (3/10))]"
    unfolding l v by simp
  finally have e: "the_ellipticity s' = [(0, Some (1/10)), (1, Some (2/10)), (2, Some (3/10))]" .
  have c: "m_cd_mre m' = Some [Some (1/10), None, Some (3/10), Some (4/10)]"
    by (simp add: m'(3) sample_melt_def)
  from s'(1) e m'(1,2) c show ?thesis by simp
qed

theorem mre_divides_without_validation_counterexample:
  "mre (- 1) 1 1 sample_cd \<noteq> Raises InvalidParameterError sample_cd
   \<and> mre 0 1 1 sample_cd \<noteq> Raises InvalidParameterError sample_cd
   \<and> (\<exists>s'. mre (- 1) 1 1 sample_cd = Returns s'
          \<and> the_ellipticity s' = [(0, Some (- 1/10)), (1, Some (- 2/10)), (2, Some (- 3/10))])"
proof -
  have "mre (- 1) 1 1 sample_cd
        = Returns (sample_cd\<lparr>store := store sample_cd
                     @ [[(0, Some (- 1/10)), (1, Some (- 2/10)), (2, Some (- 3/10))]],
                   ellipticity := 3\<rparr>)"
    by (simp add: mre_def alloc_def deref_def sample_cd_def div_series_def)
  moreover have "the_ellipticity (sample_cd\<lparr>store := store sample_cd
                     @ [[(0, Some (- 1/10)), (1, Some (- 2/10)), (2, Some (- 3/10))]],
                   ellipticity := 3\<rparr>)
        = [(0, Some (- 1/10)), (1, Some (- 2/10)), (2, Some (- 3/10))]"
    by (simp add: the_ellipticity_def deref_def sample_cd_def)
  moreover have "mre 0 1 1 sample_cd \<noteq> Raises InvalidParameterError sample_cd"
    by (simp add: mre_def alloc_def)
  ultimately show ?thesis by simp
qed

lemma filter_zip_column:
  "map fst (filter (\<lambda>(v, r). P r) (zip (map f rows) rows)) = map f (filter P rows)"
  by (induction rows) simp_all

lemma melt_integral_column:
  "melt_integral delta (map f rows) rows lo hi t
   = delta * nansum (map f (filter (in_window lo hi t) rows))"
  by (simp add: melt_integral_def filter_zip_column)

section \<open>Integration of melting spectra\<close>


lemma list2: "length xs = 2 \<Longrightarrow> xs = [xs ! 0, xs ! 1]"
  by (cases xs; cases "tl xs") auto


lemma abs_minus_at_unbound: "a_nm a = None \<Longrightarrow> abs_minus_at a wv = Inl AttributeError"
  by (simp add: abs_minus_at_def)

lemma abs_apply_nm: "a_nm a = None \<Longrightarrow> a_nm (state_of (abs_apply E x a)) = None"
proof (cases x)
  case (AbsBaseline p nm)
  assume "a_nm a = None"
  then show ?thesis
    by (simp add: AbsBaseline abs_baseline_def abs_baseline_value_def abs_minus_at_unbound)
next
  case (AbsSmooth w k)
  assume "a_nm a = None"
  then show ?thesis by (simp add: AbsSmooth abs_smooth_def split: option.splits)
next
  case (ConcentrationCalc wv eps l)
  assume "a_nm a = None"
  then show ?thesis by (simp add: ConcentrationCalc concentration_calc_def abs_minus_at_unbound)
next
  case (AbsIntegrate lo hi)
  assume "a_nm a = None"
  then show ?thesis by (simp add: AbsIntegrate abs_integrate_def split: sum.splits)
qed

lemma abs_run_nm: "a_nm a = None \<Longrightarrow> a_nm (abs_run E xs a) = None"
  by (induction xs arbitrary: a) (simp_all add: abs_apply_nm)

lemma abs_spectra_init_nm: "abs_spectra_init E p = Inr a \<Longrightarrow> a_nm a = None"
  by (auto simp: abs_spectra_init_def Let_def split: sum.splits)

lemma concentration_calc_always_raises:
  assumes "abs_spectra_init E p = Inr a"
  shows "concentration_calc wv eps l (abs_run E xs a) = Raises AttributeError (abs_run E xs a)"
  using abs_run_nm [OF abs_spectra_init_nm [OF assms], of E xs]
  by (simp add: concentration_calc_def abs_minus_at_unbound)

section \<open>Concentration from absorbance\<close>

text \<open>
  C8 on the code. \<open>concentration_calc\<close> first reads the attribute \<open>nm\<close>, which no
  statement of the class binds, so that on the sample record, whose domain holds 250,
  the call raises \<open>AttributeError\<close> and stores no concentration.
\<close>

theorem concentration_calc_sample:
  "abs_spectra_init sample_env ''abs.csv'' = Inr sample_abs
   \<and> Some 250 \<in> set (values_of (the_abs_wavelength sample_abs))
   \<and> concentration_calc 250 1 1 sample_abs = Raises AttributeError sample_abs
   \<and> a_concentration sample_abs = None"
proof -
  have "a_nm sample_abs = None" "a_concentration sample_abs = None"
    by (simp_all add: sample_abs_def)
  then show ?thesis
    by (simp add: init_sample_abs concentration_calc_def abs_minus_at_unbound sample_series
        values_of_def)
qed

lemma take_prefix_trans:
  assumes "take (length a) b = a" "take (length b) c = b"
  shows "take (length a) c = a"
proof -
  have "length (take (length a) b) = length a" using assms(1) by simp
  then have "length a \<le> length b" by simp
  then have "take (length a) c = take (length a) (take (length b) c)" by (simp add: min_def)
  then show ?thesis using assms by simp
qed

lemma cd_frame_refl: "cd_frame s s"
  by (simp add: cd_frame_def)

lemma cd_frame_trans: "cd_frame s t \<Longrightarrow> cd_frame t u \<Longrightarrow> cd_frame s u"
  unfolding cd_frame_def using take_prefix_trans by auto

lemma cd_frame_ht_filter: "cd_frame s (state_of (ht_filter s))"
  by (simp add: ht_filter_def cd_frame_def alloc_def)

lemma cd_frame_baseline: "cd_frame s (state_of (baseline E p s))"
  by (simp add: baseline_def cd_frame_def alloc_def Let_def split: option.splits prod.splits)

lemma cd_frame_smooth: "cd_frame s (state_of (smooth E w k s))"
  by (simp add: smooth_def cd_frame_def split: option.splits)

lemma cd_frame_mre: "cd_frame s (state_of (mre c n l s))"
  by (simp add: mre_def cd_frame_def alloc_def)

lemma cd_frame_integrate: "cd_frame s (state_of (integrate lo hi s))"
  by (simp add: integrate_def cd_frame_def split: sum.splits)

lemma cd_frame_apply: "cd_frame s (state_of (cd_apply E x s))"
  by (cases x)
    (simp_all add: cd_frame_ht_filter cd_frame_baseline cd_frame_smooth cd_frame_mre
      cd_frame_integrate)

lemma cd_frame_run: "cd_frame s (cd_run E xs s)"
proof (induction xs arbitrary: s)
  case Nil
  show ?case by (simp add: cd_frame_refl)
next
  case (Cons x xs)
  from cd_frame_apply [of s E x] Cons [of "state_of (cd_apply E x s)"]
  show ?case by (simp add: cd_frame_trans)
qed

lemma nth_of_prefix: "take (length a) b = a \<Longrightarrow> r < length a \<Longrightarrow> b ! r = a ! r"
  by (metis nth_take)

lemma cd_frame_raw:
  assumes "cd_frame s s'" "ellipticity_raw s < length (store s)"
    "wavelength_raw s < length (store s)"
  shows "the_ellipticity_raw s' = the_ellipticity_raw s"
    and "the_wavelength_raw s' = the_wavelength_raw s"
  using assms
  by (simp_all add: cd_frame_def the_ellipticity_raw_def the_wavelength_raw_def deref_def
      nth_of_prefix)

lemma abs_frame_refl: "abs_frame a a"
  by (simp add: abs_frame_def)

lemma abs_frame_trans: "abs_frame a b \<Longrightarrow> abs_frame b c \<Longrightarrow> abs_frame a c"
  unfolding abs_frame_def using take_prefix_trans by auto

lemma abs_frame_baseline_value: "abs_frame a (state_of (abs_baseline_value nm a))"
  by (simp add: abs_baseline_value_def abs_frame_def alloc_def split: sum.splits)

lemma abs_frame_stdout: "abs_frame a (a\<lparr>a_stdout := x\<rparr>)"
  by (simp add: abs_frame_def)

lemma abs_frame_baseline: "abs_frame a (state_of (abs_baseline p nm a))"
proof -
  have "abs_frame a (state_of (abs_baseline_value nm
          (a\<lparr>a_stdout := a_stdout a @ [''You have already substracted the buffer!'']\<rparr>)))"
    by (rule abs_frame_trans [OF abs_frame_stdout abs_frame_baseline_value])
  then show ?thesis
    by (simp add: abs_baseline_def abs_frame_baseline_value abs_frame_refl)
qed

lemma abs_frame_apply: "abs_frame a (state_of (abs_apply E x a))"
proof (cases x)
  case (AbsBaseline p nm)
  then show ?thesis by (simp add: abs_frame_baseline)
next
  case (AbsSmooth w k)
  then show ?thesis by (simp add: abs_smooth_def abs_frame_def split: option.splits)
next
  case (ConcentrationCalc wv eps l)
  then show ?thesis by (simp add: concentration_calc_def abs_frame_def split: sum.splits)
next
  case (AbsIntegrate lo hi)
  then show ?thesis by (simp add: abs_integrate_def abs_frame_def split: sum.splits)
qed

lemma abs_frame_run: "abs_frame a (abs_run E xs a)"
proof (induction xs arbitrary: a)
  case Nil
  show ?case by (simp add: abs_frame_refl)
next
  case (Cons x xs)
  from abs_frame_apply [of a E x] Cons [of "state_of (abs_apply E x a)"]
  show ?case by (simp add: abs_frame_trans)
qed

lemma abs_spectra_init_shape:
  assumes "abs_spectra_init E p = Inr a"
  shows "a_abs_raw a = a_abs a" "a_abs_raw a < length (a_store a)" "a_cols a = abs_cols"
    "the_abs_raw a = mk_series (column (a_cols a) (a_data a) ''Abs [UA]'')"
  using assms
  by (auto simp: abs_spectra_init_def Let_def the_abs_raw_def deref_def split: sum.splits)

lemma cd_spectra_init_raw:
  assumes "cd_spectra_init E p ht_max ab = Inr s"
  shows "ellipticity_raw s = ellipticity s" "wavelength_raw s = wavelength s"
    "ellipticity_raw s < length (store s)" "wavelength_raw s < length (store s)"
    "the_ellipticity_raw s = mk_series (column (cols s) (data s) ''CD [mdeg]'')"
    "the_wavelength_raw s = mk_series (column (cols s) (data s) ''Wavelength [nm]'')"
  using assms
  by (auto simp: cd_spectra_init_def Let_def the_ellipticity_raw_def the_wavelength_raw_def
      deref_def split: sum.splits)

section \<open>The raw series\<close>

text \<open>
  C10. The constructors bind the raw attribute and the current attribute to the same
  column object (\<open>ellipticity_raw\<close> and \<open>ellipticity\<close>, \<open>wavelength_raw\<close> and
  \<open>wavelength\<close>, \<open>abs_raw\<close> and \<open>abs\<close>). After any sequence of the methods, whether
  they return or raise, the raw attributes still hold the series they held after
  construction, which are the columns of the parsed data table: every method leaves the
  objects of the store as they were and only adds new ones.
\<close>

theorem raw_series_preserved:
  "(cd_spectra_init E p ht_max ab = Inr s \<longrightarrow>
      ellipticity_raw s = ellipticity s \<and> wavelength_raw s = wavelength s
      \<and> the_ellipticity_raw (cd_run E xs s) = the_ellipticity_raw s
      \<and> the_wavelength_raw (cd_run E xs s) = the_wavelength_raw s
      \<and> the_ellipticity_raw (cd_run E xs s)
          = mk_series (column (cols (cd_run E xs s)) (data (cd_run E xs s)) ''CD [mdeg]'')
      \<and> the_wavelength_raw (cd_run E xs s)
          = mk_series (column (cols (cd_run E xs s)) (data (cd_run E xs s))
                         ''Wavelength [nm]'')
      \<and> take (length (store s)) (store (cd_run E xs s)) = store s)
   \<and> (abs_spectra_init E p = Inr a \<longrightarrow>
      a_abs_raw a = a_abs a
      \<and> the_abs_raw (abs_run E ys a) = the_abs_raw a
      \<and> the_abs_raw (abs_run E ys a)
          = mk_series (column (a_cols (abs_run E ys a)) (a_data (abs_run E ys a)) ''Abs [UA]'')
      \<and> take (length (a_store a)) (a_store (abs_run E ys a)) = a_store a)"
proof (intro conjI impI)
  assume i: "cd_spectra_init E p ht_max ab = Inr s"
  note r = cd_spectra_init_raw [OF i]
  have f: "cd_frame s (cd_run E xs s)" by (rule cd_frame_run)
  note raw = cd_frame_raw [OF f r(3) r(4)]
  from f have d: "data (cd_run E xs s) = data s" "cols (cd_run E xs s) = cols s"
    "take (length (store s)) (store (cd_run E xs s)) = store s"
    by (simp_all add: cd_frame_def)
  show "ellipticity_raw s = ellipticity s" by (rule r(1))
  show "wavelength_raw s = wavelength s" by (rule r(2))
  show "the_ellipticity_raw (cd_run E xs s) = the_ellipticity_raw s" by (rule raw(1))
  show "the_wavelength_raw (cd_run E xs s) = the_wavelength_raw s" by (rule raw(2))
  show "the_ellipticity_raw (cd_run E xs s)
          = mk_series (column (cols (cd_run E xs s)) (data (cd_run E xs s)) ''CD [mdeg]'')"
    by (simp only: raw(1) d r(5))
  show "the_wavelength_raw (cd_run E xs s)
          = mk_series (column (cols (cd_run E xs s)) (data (cd_run E xs s))
                         ''Wavelength [nm]'')"
    by (simp only: raw(2) d r(6))
  show "take (length (store s)) (store (cd_run E xs s)) = store s" by (rule d(3))
next
  assume i: "abs_spectra_init E p = Inr a"
  note r = abs_spectra_init_shape [OF i]
  have f: "abs_frame a (abs_run E ys a)" by (rule abs_frame_run)
  then have d: "a_data (abs_run E ys a) = a_data a" "a_cols (abs_run E ys a) = a_cols a"
    "take (length (a_store a)) (a_store (abs_run E ys a)) = a_store a"
    "a_abs_raw (abs_run E ys a) = a_abs_raw a"
    by (simp_all add: abs_frame_def)
  have raw: "the_abs_raw (abs_run E ys a) = the_abs_raw a"
    using r(2) d(3,4) by (simp add: the_abs_raw_def deref_def nth_of_prefix)
  show "a_abs_raw a = a_abs a" by (rule r(1))
  show "the_abs_raw (abs_run E ys a) = the_abs_raw a" by (rule raw)
  show "the_abs_raw (abs_run E ys a)
          = mk_series (column (a_cols (abs_run E ys a)) (a_data (abs_run E ys a)) ''Abs [UA]'')"
    by (simp only: raw d r(4))
  show "take (length (a_store a)) (a_store (abs_run E ys a)) = a_store a" by (rule d(3))
qed

theorem raw_series_preserved_witness:
  "cd_spectra_init sample_env ''sample.csv'' 600 False = Inr sample_cd
   \<and> abs_spectra_init sample_env ''abs.csv'' = Inr sample_abs
   \<and> the_ellipticity (cd_run sample_env [HtFilter] sample_cd) = [(0, Some 1)]
   \<and> the_ellipticity_raw
        (cd_run sample_env
           [HtFilter, Baseline ''blank.csv'', Smooth 5 2, Mre 1 1 1, Integrate 248 250]
           sample_cd)
      = [(0, Some 1), (1, Some 2), (2, Some 3)]
   \<and> the_wavelength_raw
        (cd_run sample_env
           [HtFilter, Baseline ''blank.csv'', Smooth 5 2, Mre 1 1 1, Integrate 248 250]
           sample_cd)
      = [(0, Some 250), (1, Some 249), (2, Some 248)]
   \<and> the_abs_raw
        (abs_run sample_env
           [AbsBaseline None None, AbsSmooth 5 2, ConcentrationCalc 250 1 1,
            AbsIntegrate 248 250] sample_abs)
      = [(0, Some (1/2)), (1, Some (1/2)), (2, Some (1/2))]"
proof -
  have raw: "the_ellipticity_raw sample_cd = [(0, Some 1), (1, Some 2), (2, Some 3)]"
    "the_wavelength_raw sample_cd = [(0, Some 250), (1, Some 249), (2, Some 248)]"
    "the_abs_raw sample_abs = [(0, Some (1/2)), (1, Some (1/2)), (2, Some (1/2))]"
    by (simp_all add: the_ellipticity_raw_def the_wavelength_raw_def the_abs_raw_def deref_def
        sample_cd_def sample_abs_def)
  have "cd_run sample_env [HtFilter] sample_cd = sample_filtered"
    by (simp add: ht_filter_sample)
  moreover have "the_ellipticity sample_filtered = [(0, Some 1)]"
    by (simp add: the_ellipticity_def deref_def sample_filtered_def sample_cd_def)
  ultimately have f: "the_ellipticity (cd_run sample_env [HtFilter] sample_cd) = [(0, Some 1)]"
    by simp
  from raw_series_preserved [of sample_env "''sample.csv''" 600 False sample_cd
      "[HtFilter, Baseline ''blank.csv'', Smooth 5 2, Mre 1 1 1, Integrate 248 250]"
      sample_abs "[]"] init_sample
  have a: "the_ellipticity_raw
        (cd_run sample_env
           [HtFilter, Baseline ''blank.csv'', Smooth 5 2, Mre 1 1 1, Integrate 248 250]
           sample_cd) = the_ellipticity_raw sample_cd"
    "the_wavelength_raw
        (cd_run sample_env
           [HtFilter, Baseline ''blank.csv'', Smooth 5 2, Mre 1 1 1, Integrate 248 250]
           sample_cd) = the_wavelength_raw sample_cd"
    by blast+
  from raw_series_preserved [of sample_env "''abs.csv''" 600 False sample_cd "[]"
      sample_abs "[AbsBaseline None None, AbsSmooth 5 2, ConcentrationCalc 250 1 1,
            AbsIntegrate 248 250]"] init_sample_abs
  have b: "the_abs_raw
        (abs_run sample_env
           [AbsBaseline None None, AbsSmooth 5 2, ConcentrationCalc 250 1 1,
            AbsIntegrate 248 250] sample_abs) = the_abs_raw sample_abs"
    by blast
  show ?thesis
    by (intro conjI) (simp_all only: init_sample init_sample_abs f a b raw)
qed

end
